theory Spec2Isabelle
  imports Complex_Main
begin

section \<open>JavaScript values\<close>

text \<open>
  A JavaScript string is a sequence of UTF-16 code units; a code unit is modelled as a
  natural number, so that Hebrew transcripts (code units 0x0590 to 0x05FF) are values of
  the model. String constants of the source are written as HOL string literals and
  converted with \<open>js\<close>. JavaScript numbers are modelled as exact reals: the code below
  compares them with constants, takes absolute values and, in one place, the mean of two.
\<close>

type_synonym jsstring = "nat list"

abbreviation js :: "string \<Rightarrow> jsstring" where
  "js s \<equiv> map of_char s"

text \<open>Exceptions are values: the message of the thrown \<open>Error\<close>, or a \<open>TypeError\<close>
  raised by a property access on \<open>null\<close>. The logging calls (\<open>logInfo\<close>,
  \<open>logError\<close>) return nothing and are taken not to throw; they are left out.\<close>

datatype error = Error jsstring | TypeError jsstring

text \<open>\<open>try { body } catch (error) { handler }\<close>\<close>

definition try_catch :: "error + 'a \<Rightarrow> (error \<Rightarrow> error + 'a) \<Rightarrow> error + 'a" where
  "try_catch body handler = (case body of Inl e \<Rightarrow> handler e | Inr v \<Rightarrow> Inr v)"

section \<open>Mood profile\<close>

record Emotion =
  name :: jsstring
  intensity :: real
  confidence :: real

record MoodAnalysis =
  overall_mood :: jsstring
  confidence_score :: real
  emotions :: "Emotion list"
  sentiment_score :: real
  key_themes :: "jsstring list"
  risk_indicators :: "jsstring list"
  recommendations :: "jsstring list"

section \<open>TemplateSelectorService\<close>

record TemplateSuggestion =
  templateId :: jsstring
  suggestionConfidence :: real
  reasoning :: jsstring
  fallbackUsed :: bool


datatype IntensityLevel = Low | Medium | High

record SelectionFactors =
  overallMood :: jsstring
  confidenceScore :: real
  sentimentScore :: real
  primaryEmotion :: jsstring
  intensityLevel :: IntensityLevel
  riskIndicators :: nat
  keyThemes :: "jsstring list"

definition defaultTemplateId :: jsstring where
  "defaultTemplateId = js ''default-therapist''"

text \<open>\<open>emotions.reduce((prev, current) => current.intensity > prev.intensity ? current : prev)\<close>
  without an initial value starts from the first element; the empty array is answered
  before the \<open>reduce\<close>.\<close>

fun getPrimaryEmotion :: "Emotion list \<Rightarrow> jsstring" where
  "getPrimaryEmotion [] = js ''neutral''"
| "getPrimaryEmotion (e # es) =
     name (foldl (\<lambda>prev current. if intensity current > intensity prev then current else prev) e es)"

definition calculateIntensityLevel :: "MoodAnalysis \<Rightarrow> IntensityLevel" where
  "calculateIntensityLevel moodAnalysis =
     (let avgIntensity = (confidence_score moodAnalysis + \<bar>sentiment_score moodAnalysis\<bar>) / 2
      in if avgIntensity < 0.3 then Low
         else if avgIntensity < 0.7 then Medium
         else High)"

definition extractSelectionFactors :: "MoodAnalysis \<Rightarrow> SelectionFactors" where
  "extractSelectionFactors moodAnalysis =
     \<lparr> overallMood = overall_mood moodAnalysis,
       confidenceScore = confidence_score moodAnalysis,
       sentimentScore = sentiment_score moodAnalysis,
       primaryEmotion = getPrimaryEmotion (emotions moodAnalysis),
       intensityLevel = calculateIntensityLevel moodAnalysis,
       riskIndicators = length (risk_indicators moodAnalysis),
       keyThemes = key_themes moodAnalysis \<rparr>"

definition applySelectionLogic :: "SelectionFactors \<Rightarrow> TemplateSuggestion" where
  "applySelectionLogic factors =
     (let (tid, conf, why) =
        (if riskIndicators factors > 0 then
           (js ''crisis-support-therapist'', 0.95,
            js ''Risk indicators detected - using crisis support template'')
         else if overallMood factors = js ''positive'' \<and> sentimentScore factors > 0.6 \<and>
                 primaryEmotion factors \<in> set [js ''joy'', js ''excitement'', js ''happiness''] then
           (js ''motivational-coach'', 0.85,
            js ''High positive sentiment with joy - using motivational coach template'')
         else if overallMood factors = js ''negative'' \<and> sentimentScore factors < - 0.6 \<and>
                 primaryEmotion factors \<in> set [js ''sadness'', js ''anxiety'', js ''stress''] then
           (js ''empathetic-therapist'', 0.90,
            js ''High negative sentiment with distress - using empathetic therapist template'')
         else if overallMood factors = js ''negative'' \<and> sentimentScore factors < - 0.2 then
           (js ''supportive-counselor'', 0.80,
            js ''Moderate negative sentiment - using supportive counselor template'')
         else if overallMood factors = js ''neutral'' \<and> intensityLevel factors = Low then
           (js ''life-coach'', 0.75,
            js ''Neutral mood with low intensity - using life coach template'')
         else if list_ex (\<lambda>theme. theme \<in> set [js ''work'', js ''career'', js ''professional''])
                   (keyThemes factors) then
           (js ''career-counselor'', 0.85,
            js ''Work-related themes detected - using career counselor template'')
         else if list_ex (\<lambda>theme. theme \<in> set [js ''family'', js ''relationship'', js ''marriage''])
                   (keyThemes factors) then
           (js ''family-therapist'', 0.85,
            js ''Family-related themes detected - using family therapist template'')
         else if list_ex (\<lambda>theme. theme \<in> set [js ''health'', js ''wellness'', js ''fitness''])
                   (keyThemes factors) then
           (js ''wellness-coach'', 0.80,
            js ''Health-related themes detected - using wellness coach template'')
         else
           (js ''general-therapist'', 0.70,
            js ''General mood profile - using general therapist template''))
      in \<lparr> templateId = tid, suggestionConfidence = conf, reasoning = why,
           fallbackUsed = False \<rparr>)"

text \<open>
  The body of the \<open>try\<close> block of \<open>suggestTemplate\<close>. Its first statement reads
  \<open>moodAnalysis.overall_mood\<close>, which throws a \<open>TypeError\<close> when the argument is
  \<open>null\<close> or \<open>undefined\<close> (\<open>None\<close> here). Logging has no effect on the result.
\<close>

definition suggestTemplate_body :: "MoodAnalysis option \<Rightarrow> error + TemplateSuggestion" where
  "suggestTemplate_body moodAnalysis =
     (case moodAnalysis of
        None \<Rightarrow> Inl (TypeError (js ''Cannot read properties of null (reading overall_mood)''))
      | Some m \<Rightarrow> Inr (applySelectionLogic (extractSelectionFactors m)))"

definition suggestTemplate :: "MoodAnalysis option \<Rightarrow> error + TemplateSuggestion" where
  "suggestTemplate moodAnalysis =
     try_catch (suggestTemplate_body moodAnalysis)
       (\<lambda>error. Inr \<lparr> templateId = defaultTemplateId, suggestionConfidence = 0.0,
                       reasoning = js ''Default template used due to analysis error'',
                       fallbackUsed = True \<rparr>)"



section \<open>SpeechToTextMoodAnalysisService: text helpers\<close>

text \<open>
  \<open>toLowerCase\<close> is modelled on the ASCII letters; code units outside ASCII are left as
  they are (the Unicode case tables are not part of the model). The vocabularies matched
  below are lower-case ASCII words.
\<close>

definition toLowerCase :: "jsstring \<Rightarrow> jsstring" where
  "toLowerCase text = map (\<lambda>c. if 65 \<le> c \<and> c \<le> 90 then c + 32 else c) text"

fun startsWith :: "jsstring \<Rightarrow> jsstring \<Rightarrow> bool" where
  "startsWith text [] = True"
| "startsWith [] (k # ks) = False"
| "startsWith (c # cs) (k # ks) = (c = k \<and> startsWith cs ks)"

text \<open>\<open>text.includes(keyword)\<close>: the keyword occurs at some position of the text.\<close>

fun includesJs :: "jsstring \<Rightarrow> jsstring \<Rightarrow> bool" where
  "includesJs [] keyword = (keyword = [])"
| "includesJs (c # cs) keyword = (startsWith (c # cs) keyword \<or> includesJs cs keyword)"

text \<open>The code units matched by \<open>\s\<close> in a JavaScript regular expression.\<close>

definition isWhitespace :: "nat \<Rightarrow> bool" where
  "isWhitespace c =
     ((9 \<le> c \<and> c \<le> 13) \<or> c = 32 \<or> c = 160 \<or> c = 5760 \<or> (8192 \<le> c \<and> c \<le> 8202) \<or>
      c = 8232 \<or> c = 8233 \<or> c = 8239 \<or> c = 8287 \<or> c = 12288 \<or> c = 65279)"

text \<open>\<open>text.split(/\s+/)\<close>: the pieces between maximal runs of whitespace; a leading or
  trailing run leaves an empty piece, and the empty string splits into one empty piece.\<close>

function split_whitespace :: "jsstring \<Rightarrow> jsstring \<Rightarrow> jsstring list" where
  "split_whitespace [] piece = [rev piece]"
| "split_whitespace (c # cs) piece =
     (if isWhitespace c then rev piece # split_whitespace (dropWhile isWhitespace cs) []
      else split_whitespace cs (c # piece))"
  by pat_completeness auto
termination
  by (relation "measure (\<lambda>(text, piece). length text)")
     (auto simp: less_Suc_eq_le length_dropWhile_le)

fun join :: "jsstring \<Rightarrow> jsstring list \<Rightarrow> jsstring" where
  "join sep [] = []"
| "join sep [x] = x"
| "join sep (x # y # ys) = x @ sep @ join sep (y # ys)"

definition detectLanguage :: "jsstring \<Rightarrow> jsstring" where
  "detectLanguage text =
     (if list_ex (\<lambda>c. 1424 \<le> c \<and> c \<le> 1535) text then js ''hebrew''
      else if list_ex (\<lambda>c. (97 \<le> c \<and> c \<le> 122) \<or> (65 \<le> c \<and> c \<le> 90)) text then js ''english''
      else js ''unknown'')"

definition mapSentimentToScore :: "jsstring \<Rightarrow> real" where
  "mapSentimentToScore sentiment =
     (if sentiment = js ''positive'' then 0.8
      else if sentiment = js ''negative'' then - 0.8
      else if sentiment = js ''neutral'' then 0.0
      else 0.0)"

definition mapGoogleSentimentToMood :: "real \<Rightarrow> jsstring" where
  "mapGoogleSentimentToMood score =
     (if score > 0.1 then js ''positive''
      else if score < - 0.1 then js ''negative''
      else js ''neutral'')"

record DocumentSentiment =
  score :: real
  magnitude :: real

definition mapGoogleSentimentToEmotions :: "DocumentSentiment \<Rightarrow> Emotion list" where
  "mapGoogleSentimentToEmotions documentSentiment =
     (if score documentSentiment > 0.3 then
        [\<lparr> name = js ''joy'', intensity = score documentSentiment, confidence = 0.8 \<rparr>]
      else if score documentSentiment < - 0.3 then
        [\<lparr> name = js ''sadness'', intensity = \<bar>score documentSentiment\<bar>, confidence = 0.8 \<rparr>]
      else
        [\<lparr> name = js ''neutral'', intensity = 0.5, confidence = 0.6 \<rparr>])"

definition commonThemes :: "jsstring list" where
  "commonThemes = [js ''work'', js ''family'', js ''health'', js ''stress'', js ''happiness'',
                   js ''anxiety'', js ''success'', js ''failure'']"

definition extractKeyThemes :: "jsstring \<Rightarrow> jsstring list" where
  "extractKeyThemes text =
     (let words = split_whitespace (toLowerCase text) []
      in take 3 (filter (\<lambda>theme. list_ex (\<lambda>word. includesJs word theme) words) commonThemes))"

definition riskKeywords :: "jsstring list" where
  "riskKeywords = [js ''suicide'', js ''harm'', js ''danger'', js ''hopeless'', js ''worthless'']"

definition detectRiskIndicators :: "jsstring \<Rightarrow> jsstring list" where
  "detectRiskIndicators text =
     (let lowerText = toLowerCase text
      in filter (\<lambda>keyword. includesJs lowerText keyword) riskKeywords)"

text \<open>The \<open>switch\<close> has no default branch: another mood leaves the list empty.\<close>

definition generateRecommendations :: "jsstring \<Rightarrow> Emotion list \<Rightarrow> jsstring list" where
  "generateRecommendations mood ems =
     take 3
       (if mood = js ''positive'' then
          [js ''Continue with current positive practices'',
           js ''Share your positive experiences with others'']
        else if mood = js ''negative'' then
          [js ''Consider speaking with a mental health professional'',
           js ''Practice self-care and stress management techniques'']
        else if mood = js ''neutral'' then
          [js ''Explore activities that bring you joy'',
           js ''Consider setting new goals or challenges'']
        else [])"

definition applyNeutralFallback :: "MoodAnalysis \<Rightarrow> MoodAnalysis" where
  "applyNeutralFallback moodAnalysis =
     moodAnalysis
       \<lparr> overall_mood := js ''neutral'',
         confidence_score := 0.5,
         emotions := [\<lparr> name = js ''neutral'', intensity = 0.5, confidence = 0.5 \<rparr>],
         sentiment_score := 0.0,
         recommendations := [js ''Consider re-recording with clearer audio'',
                             js ''Try speaking more slowly and clearly''] \<rparr>"

definition createNeutralMoodAnalysis :: MoodAnalysis where
  "createNeutralMoodAnalysis =
     \<lparr> overall_mood = js ''neutral'',
       confidence_score = 0.0,
       emotions = [\<lparr> name = js ''neutral'', intensity = 0.5, confidence = 0.0 \<rparr>],
       sentiment_score = 0.0,
       key_themes = [],
       risk_indicators = [],
       recommendations =
         [js ''Unable to analyze audio. Please try re-recording with clearer audio.''] \<rparr>"

section \<open>SpeechToTextMoodAnalysisService: providers\<close>

type_synonym Buffer = "nat list"

record ElevenLabsTranscriptionResponse =
  el_text :: jsstring
  el_confidence :: real
  el_language :: "jsstring option"

record ReportedEmotion =
  reported_name :: jsstring
  reported_intensity :: real

record ElevenLabsSentimentResponse =
  el_sentiment :: jsstring
  el_sentiment_confidence :: real
  el_emotions :: "ReportedEmotion list"

record Alternative =
  alt_transcript :: jsstring
  alt_confidence :: real

record SpeechResult =
  alternatives :: "Alternative list"

record GoogleAITranscriptionResponse =
  results :: "SpeechResult list"
  languageCode :: "jsstring option"

text \<open>The \<open>sentences\<close> of the Google sentiment response are never read.\<close>

record GoogleAISentimentResponse =
  documentSentiment :: DocumentSentiment

text \<open>
  What one \<open>fetch\<close> does: the promise rejects, or it resolves to a response with its
  \<open>ok\<close> flag and its JSON body (\<open>None\<close> for a body that is \<open>null\<close> or that
  \<open>response.json()\<close> rejects).
\<close>

datatype 'a fetched = Rejected jsstring | Response bool "'a option"

text \<open>
  The world outside the service: the configured keys, what each provider answers to the
  request made during the given attempt of the retry loop, and the clock
  (\<open>Date_now 0\<close> at entry, \<open>Date_now 1\<close> when the result is built).
\<close>

record World =
  ELEVENLABS_API_KEY :: jsstring
  GOOGLE_AI_STUDIO_API_KEY :: jsstring
  fetch_elevenlabs_speech_to_text :: "Buffer \<Rightarrow> nat \<Rightarrow> ElevenLabsTranscriptionResponse fetched"
  fetch_elevenlabs_sentiment :: "jsstring \<Rightarrow> nat \<Rightarrow> ElevenLabsSentimentResponse fetched"
  fetch_google_speech_recognize :: "Buffer \<Rightarrow> nat \<Rightarrow> GoogleAITranscriptionResponse fetched"
  fetch_google_analyze_sentiment :: "jsstring \<Rightarrow> nat \<Rightarrow> GoogleAISentimentResponse fetched"
  Date_now :: "nat \<Rightarrow> int"

text \<open>Each \<open>call...\<close> method catches every failure of its request and returns \<open>null\<close>.\<close>

definition call_api :: "'a fetched \<Rightarrow> 'a option" where
  "call_api outcome =
     (case outcome of
        Rejected msg \<Rightarrow> None
      | Response ok data \<Rightarrow> if \<not> ok then None else data)"

definition callElevenLabsTranscription :: "World \<Rightarrow> Buffer \<Rightarrow> nat \<Rightarrow> ElevenLabsTranscriptionResponse option" where
  "callElevenLabsTranscription world audioBuffer attempt =
     call_api (fetch_elevenlabs_speech_to_text world audioBuffer attempt)"

definition callElevenLabsSentiment :: "World \<Rightarrow> jsstring \<Rightarrow> nat \<Rightarrow> ElevenLabsSentimentResponse option" where
  "callElevenLabsSentiment world text attempt =
     call_api (fetch_elevenlabs_sentiment world text attempt)"

definition callGoogleAITranscription :: "World \<Rightarrow> Buffer \<Rightarrow> nat \<Rightarrow> GoogleAITranscriptionResponse option" where
  "callGoogleAITranscription world audioBuffer attempt =
     call_api (fetch_google_speech_recognize world audioBuffer attempt)"

definition callGoogleAISentiment :: "World \<Rightarrow> jsstring \<Rightarrow> nat \<Rightarrow> GoogleAISentimentResponse option" where
  "callGoogleAISentiment world text attempt =
     call_api (fetch_google_analyze_sentiment world text attempt)"

record ProviderResult =
  pr_transcript :: jsstring
  pr_moodAnalysis :: MoodAnalysis
  pr_confidence :: real

definition maxRetries :: nat where
  "maxRetries = 2"

definition retryDelayMs :: nat where
  "retryDelayMs = 1000"

text \<open>The body of the \<open>try\<close> block inside the retry loop of \<open>tryElevenLabsAnalysis\<close>.\<close>

definition elevenLabsAttempt :: "World \<Rightarrow> Buffer \<Rightarrow> nat \<Rightarrow> error + ProviderResult" where
  "elevenLabsAttempt world audioBuffer attempt =
     (case callElevenLabsTranscription world audioBuffer attempt of
        None \<Rightarrow> Inl (Error (js ''No transcript received from ElevenLabs''))
      | Some transcription \<Rightarrow>
          if el_text transcription = [] then Inl (Error (js ''No transcript received from ElevenLabs''))
          else
            (case callElevenLabsSentiment world (el_text transcription) attempt of
               None \<Rightarrow> Inl (Error (js ''No sentiment analysis received from ElevenLabs''))
             | Some sentiment \<Rightarrow>
                 (let ems = map (\<lambda>emotion. \<lparr> name = reported_name emotion,
                                              intensity = reported_intensity emotion,
                                              confidence = el_sentiment_confidence sentiment \<rparr>)
                              (el_emotions sentiment)
                  in Inr \<lparr> pr_transcript = el_text transcription,
                           pr_moodAnalysis =
                             \<lparr> overall_mood = el_sentiment sentiment,
                               confidence_score = el_sentiment_confidence sentiment,
                               emotions = ems,
                               sentiment_score = mapSentimentToScore (el_sentiment sentiment),
                               key_themes = extractKeyThemes (el_text transcription),
                               risk_indicators = detectRiskIndicators (el_text transcription),
                               recommendations = generateRecommendations (el_sentiment sentiment) ems \<rparr>,
                           pr_confidence = el_confidence transcription \<rparr>)))"

text \<open>\<open>results.map(result => result.alternatives[0]?.transcript).filter(Boolean).join(' ')\<close>:
  a result without alternatives, or whose first transcript is empty, adds nothing.\<close>

definition googleTranscript :: "SpeechResult list \<Rightarrow> jsstring" where
  "googleTranscript rs =
     join (js '' '')
       (List.map_filter
          (\<lambda>result. case alternatives result of
                       [] \<Rightarrow> None
                     | a # _ \<Rightarrow> if alt_transcript a = [] then None else Some (alt_transcript a))
          rs)"

text \<open>\<open>transcription.results[0]?.alternatives[0]?.confidence || 0.5\<close>\<close>

definition googleConfidence :: "SpeechResult list \<Rightarrow> real" where
  "googleConfidence rs =
     (case rs of
        [] \<Rightarrow> 0.5
      | r # _ \<Rightarrow>
          (case alternatives r of
             [] \<Rightarrow> 0.5
           | a # _ \<Rightarrow> if alt_confidence a = 0 then 0.5 else alt_confidence a))"

text \<open>The body of the \<open>try\<close> block inside the retry loop of \<open>tryGoogleAIAnalysis\<close>.\<close>

definition googleAttempt :: "World \<Rightarrow> Buffer \<Rightarrow> nat \<Rightarrow> error + ProviderResult" where
  "googleAttempt world audioBuffer attempt =
     (case callGoogleAITranscription world audioBuffer attempt of
        None \<Rightarrow> Inl (Error (js ''No transcript received from Google AI''))
      | Some transcription \<Rightarrow>
          if results transcription = [] then Inl (Error (js ''No transcript received from Google AI''))
          else
            (let transcript = googleTranscript (results transcription)
             in if transcript = [] then Inl (Error (js ''Empty transcript from Google AI''))
                else
                  (case callGoogleAISentiment world transcript attempt of
                     None \<Rightarrow> Inl (Error (js ''No sentiment analysis received from Google AI''))
                   | Some sentiment \<Rightarrow>
                       Inr \<lparr> pr_transcript = transcript,
                             pr_moodAnalysis =
                               \<lparr> overall_mood = mapGoogleSentimentToMood (score (documentSentiment sentiment)),
                                 confidence_score = \<bar>score (documentSentiment sentiment)\<bar>,
                                 emotions = mapGoogleSentimentToEmotions (documentSentiment sentiment),
                                 sentiment_score = score (documentSentiment sentiment),
                                 key_themes = extractKeyThemes transcript,
                                 risk_indicators = detectRiskIndicators transcript,
                                 recommendations =
                                   generateRecommendations
                                     (mapGoogleSentimentToMood (score (documentSentiment sentiment)))
                                     (mapGoogleSentimentToEmotions (documentSentiment sentiment)) \<rparr>,
                             pr_confidence = googleConfidence (results transcription) \<rparr>)))"

text \<open>
  What the service does that an observer can see, in order: the start of an attempt on a
  provider (the \<open>logInfo\<close> that opens each iteration) and each \<open>this.delay(ms)\<close>.
\<close>

datatype Provider = ElevenLabs | Google

datatype event = Attempt Provider nat | Delay nat

text \<open>\<open>for (let attempt = 0; attempt <= this.maxRetries; attempt++) { try ... catch ... }\<close>,
  entered with the given \<open>attempt\<close>; the trace so far is passed along and extended.
  \<open>tryElevenLabsAnalysis\<close> and \<open>tryGoogleAIAnalysis\<close> have this same loop, each around
  its own \<open>try\<close> block (\<open>body\<close>): a result returns from the loop, an exception is
  caught and followed by the backoff delay unless the attempt was the last.\<close>

function retryLoop ::
  "Provider \<Rightarrow> (nat \<Rightarrow> error + ProviderResult) \<Rightarrow> nat \<Rightarrow> event list
     \<Rightarrow> ProviderResult option \<times> event list" where
  "retryLoop provider body attempt trace =
     (if attempt \<le> maxRetries then
        (case body attempt of
           Inr result \<Rightarrow> (Some result, trace @ [Attempt provider attempt])
         | Inl error \<Rightarrow>
             retryLoop provider body (Suc attempt)
               (trace @ [Attempt provider attempt] @
                  (if attempt < maxRetries then [Delay (retryDelayMs * 2 ^ attempt)] else [])))
      else (None, trace))"
  by pat_completeness auto
termination
  by (relation "measure (\<lambda>(provider, body, attempt, trace). Suc maxRetries - attempt)") auto

declare retryLoop.simps [simp del]

definition tryElevenLabsAnalysis ::
  "World \<Rightarrow> Buffer \<Rightarrow> nat \<Rightarrow> event list \<Rightarrow> ProviderResult option \<times> event list" where
  "tryElevenLabsAnalysis world audioBuffer retryCount trace =
     (if ELEVENLABS_API_KEY world = [] then (None, trace)
      else retryLoop ElevenLabs (elevenLabsAttempt world audioBuffer) 0 trace)"

definition tryGoogleAIAnalysis ::
  "World \<Rightarrow> Buffer \<Rightarrow> nat \<Rightarrow> event list \<Rightarrow> ProviderResult option \<times> event list" where
  "tryGoogleAIAnalysis world audioBuffer retryCount trace =
     (if GOOGLE_AI_STUDIO_API_KEY world = [] then (None, trace)
      else retryLoop Google (googleAttempt world audioBuffer) 0 trace)"

section \<open>SpeechToTextMoodAnalysisService.analyzeAudio\<close>

text \<open>
  The first statements of the \<open>try\<close> block of \<open>analyzeAudio\<close>: ElevenLabs first, and
  Google only when ElevenLabs returned \<open>null\<close>. The result is the value of
  \<open>fallbackUsed\<close>, the provider result and the trace.
\<close>

definition providerChain ::
  "World \<Rightarrow> Buffer \<Rightarrow> nat \<Rightarrow> bool \<times> ProviderResult option \<times> event list" where
  "providerChain world audioBuffer retryCount =
     (case tryElevenLabsAnalysis world audioBuffer retryCount [] of
        (None, trace1) \<Rightarrow> (True, tryGoogleAIAnalysis world audioBuffer retryCount trace1)
      | (Some r, trace1) \<Rightarrow> (False, Some r, trace1))"

record AnalysisMetadata =
  retryCount :: nat
  meta_fallbackUsed :: bool
  neutralFallbackApplied :: bool
  languageOverride :: bool

record AnalysisResult =
  transcript :: jsstring
  language :: jsstring
  moodAnalysis :: MoodAnalysis
  result_confidence :: real
  apiUsed :: jsstring
  processingTime :: int
  metadata :: AnalysisMetadata

text \<open>
  \<open>analyzeAudio_run\<close> is the method with the trace of what it did; the optional
  \<open>originalLanguage\<close> is \<open>None\<close> when the caller leaves it out. \<open>retryCount\<close> is
  initialised to 0 and never assigned again.
\<close>

definition analyzeAudio_run ::
  "World \<Rightarrow> Buffer \<Rightarrow> jsstring option \<Rightarrow> (error + AnalysisResult) \<times> event list" where
  "analyzeAudio_run world audioBuffer originalLanguage =
     (let startTime = Date_now world 0;
          retryCount = 0;
          (fallbackUsed, result, trace) = providerChain world audioBuffer retryCount
      in (try_catch
            (case result of
               None \<Rightarrow> Inl (Error (js ''All API providers failed''))
             | Some r \<Rightarrow>
                 (let detectedLanguage = detectLanguage (pr_transcript r);
                      languageOverride =
                        (case originalLanguage of
                           None \<Rightarrow> False
                         | Some l \<Rightarrow> l \<noteq> [] \<and> l \<noteq> js ''unknown'' \<and> detectedLanguage \<noteq> l);
                      neutralFallbackApplied = (pr_confidence r < 0.6);
                      mood = (if neutralFallbackApplied then applyNeutralFallback (pr_moodAnalysis r)
                              else pr_moodAnalysis r)
                  in Inr \<lparr> transcript = pr_transcript r,
                           language = detectedLanguage,
                           moodAnalysis = mood,
                           result_confidence = pr_confidence r,
                           apiUsed = (if fallbackUsed then js ''google'' else js ''elevenlabs''),
                           processingTime = Date_now world 1 - startTime,
                           metadata = \<lparr> retryCount = retryCount,
                                        meta_fallbackUsed = fallbackUsed,
                                        neutralFallbackApplied = neutralFallbackApplied,
                                        languageOverride = languageOverride \<rparr> \<rparr>))
            (\<lambda>error.
               Inr \<lparr> transcript = [],
                     language = js ''unknown'',
                     moodAnalysis = createNeutralMoodAnalysis,
                     result_confidence = 0,
                     apiUsed = js ''fallback'',
                     processingTime = Date_now world 1 - startTime,
                     metadata = \<lparr> retryCount = retryCount,
                                  meta_fallbackUsed = True,
                                  neutralFallbackApplied = True,
                                  languageOverride = False \<rparr> \<rparr>),
          trace))"

definition analyzeAudio :: "World \<Rightarrow> Buffer \<Rightarrow> jsstring option \<Rightarrow> error + AnalysisResult" where
  "analyzeAudio world audioBuffer originalLanguage =
     fst (analyzeAudio_run world audioBuffer originalLanguage)"

section \<open>Video generation\<close>

datatype VideoProvider = D_ID | JOGG

datatype VideoStatus = Pending | Processing | Completed | Failed

text \<open>The mood analysis and the template metadata of the payload are typed \<open>any\<close> and
  passed on to the providers as they are.\<close>

record VideoGenerationPayload =
  payload_transcript :: jsstring
  payload_moodAnalysis :: "MoodAnalysis option"
  payload_templateMetadata :: "jsstring option"

text \<open>The \<open>data\<close> of a provider's HTTP response: each URL may be missing.\<close>

record ProviderData =
  video_url :: "jsstring option"
  download_url :: "jsstring option"

record VideoGenerationResult =
  videoUrl :: jsstring
  provider :: VideoProvider
  status :: VideoStatus
  errorMessage :: "jsstring option"
  duration :: "real option"
  providerResponse :: "ProviderData option"

definition STORAGE_RETRY_LIMIT :: nat where
  "STORAGE_RETRY_LIMIT = 3"

definition PROVIDER_RETRY_LIMIT :: nat where
  "PROVIDER_RETRY_LIMIT = 2"

text \<open>
  The world outside the video stage: what each provider answers to the request of the
  given iteration of the provider loop (a rejection, or a response and its \<open>data\<close>),
  what the download and the blob store answer at the given retry of the upload, and the
  rendering of \<open>Date.now()\<close> at that retry.
\<close>

record VideoWorld =
  post_did :: "VideoGenerationPayload \<Rightarrow> nat \<Rightarrow> error + ProviderData option"
  post_jogg :: "VideoGenerationPayload \<Rightarrow> nat \<Rightarrow> error + ProviderData option"
  axios_get :: "jsstring \<Rightarrow> nat \<Rightarrow> error + Buffer"
  uploadBuffer :: "Buffer \<Rightarrow> jsstring \<Rightarrow> nat \<Rightarrow> error + jsstring"
  timestamp :: "nat \<Rightarrow> jsstring"

definition message :: "error \<Rightarrow> jsstring" where
  "message e = (case e of Error m \<Rightarrow> m | TypeError m \<Rightarrow> m)"

text \<open>A string that is present and not empty; \<open>!videoUrl\<close> is its negation.\<close>

definition truthy :: "jsstring option \<Rightarrow> bool" where
  "truthy v = (case v of None \<Rightarrow> False | Some s \<Rightarrow> s \<noteq> [])"

definition callDIDApi ::
  "VideoWorld \<Rightarrow> VideoGenerationPayload \<Rightarrow> nat \<Rightarrow> error + jsstring option \<times> ProviderData option" where
  "callDIDApi world payload attempt =
     (case post_did world payload attempt of
        Inl e \<Rightarrow> Inl e
      | Inr data \<Rightarrow> Inr (case data of None \<Rightarrow> None | Some d \<Rightarrow> video_url d, data))"

definition callJOGGApi ::
  "VideoWorld \<Rightarrow> VideoGenerationPayload \<Rightarrow> nat \<Rightarrow> error + jsstring option \<times> ProviderData option" where
  "callJOGGApi world payload attempt =
     (case post_jogg world payload attempt of
        Inl e \<Rightarrow> Inl e
      | Inr data \<Rightarrow>
          Inr (case data of
                 None \<Rightarrow> None
               | Some d \<Rightarrow> if truthy (video_url d) then video_url d else download_url d,
               data))"

datatype video_event = CallDID nat | CallJOGG nat | UploadAttempt nat

text \<open>The \<open>try\<close> block of \<open>uploadVideoToStorage\<close>: download the video from the
  provider, then upload the bytes to the blob store.\<close>

definition uploadAttempt ::
  "VideoWorld \<Rightarrow> jsstring \<Rightarrow> jsstring \<Rightarrow> jsstring \<Rightarrow> nat \<Rightarrow> error + jsstring" where
  "uploadAttempt world url userId dialogueId retry =
     (let fileName = js ''videos/'' @ userId @ js ''/'' @ dialogueId @ js ''/'' @
                       timestamp world retry @ js ''_avatar.mp4''
      in case axios_get world url retry of
           Inl e \<Rightarrow> Inl e
         | Inr videoBuffer \<Rightarrow> uploadBuffer world videoBuffer fileName retry)"

text \<open>\<open>uploadVideoToStorage\<close>: the \<open>catch\<close> calls the function again while
  \<open>retry < STORAGE_RETRY_LIMIT\<close> and rethrows the error otherwise.\<close>

function uploadVideoToStorage ::
  "VideoWorld \<Rightarrow> jsstring \<Rightarrow> jsstring \<Rightarrow> jsstring \<Rightarrow> nat \<Rightarrow> video_event list
     \<Rightarrow> (error + jsstring) \<times> video_event list" where
  "uploadVideoToStorage world url userId dialogueId retry trace =
     (case uploadAttempt world url userId dialogueId retry of
        Inr uploadedUrl \<Rightarrow> (Inr uploadedUrl, trace @ [UploadAttempt retry])
      | Inl error \<Rightarrow>
          if retry < STORAGE_RETRY_LIMIT then
            uploadVideoToStorage world url userId dialogueId (Suc retry)
              (trace @ [UploadAttempt retry])
          else (Inl error, trace @ [UploadAttempt retry]))"
  by pat_completeness auto
termination
  by (relation "measure (\<lambda>(world, url, userId, dialogueId, retry, trace). STORAGE_RETRY_LIMIT - retry)")
     auto

declare uploadVideoToStorage.simps [simp del]

text \<open>The local variables of \<open>generateAvatarVideo\<close> that the provider loop assigns.\<close>

record Locals =
  cur_provider :: VideoProvider
  cur_providerResponse :: "ProviderData option"
  cur_videoUrl :: "jsstring option"
  cur_errorMessage :: "jsstring option"
  cur_status :: VideoStatus

text \<open>The two \<open>try\<close> blocks of the loop body: \<open>Inr\<close> is the \<open>break\<close>, \<open>Inl\<close> the
  exception thrown together with the variables as they are at the throw.\<close>

definition tryDID ::
  "VideoWorld \<Rightarrow> VideoGenerationPayload \<Rightarrow> nat \<Rightarrow> Locals \<Rightarrow> error \<times> Locals + Locals" where
  "tryDID world payload attempt l =
     (case callDIDApi world payload attempt of
        Inl e \<Rightarrow> Inl (e, l)
      | Inr (url, response) \<Rightarrow>
          (let l1 = l\<lparr> cur_provider := D_ID, cur_providerResponse := response, cur_videoUrl := url \<rparr>
           in if \<not> truthy url then Inl (Error (js ''D-ID API did not return a video URL''), l1)
              else Inr (l1\<lparr> cur_status := Processing \<rparr>)))"

definition tryJOGG ::
  "VideoWorld \<Rightarrow> VideoGenerationPayload \<Rightarrow> nat \<Rightarrow> Locals \<Rightarrow> error \<times> Locals + Locals" where
  "tryJOGG world payload attempt l =
     (case callJOGGApi world payload attempt of
        Inl e \<Rightarrow> Inl (e, l)
      | Inr (url, response) \<Rightarrow>
          (let l1 = l\<lparr> cur_providerResponse := response, cur_videoUrl := url \<rparr>
           in if \<not> truthy url then Inl (Error (js ''JOGG API did not return a video URL''), l1)
              else Inr (l1\<lparr> cur_status := Processing \<rparr>)))"

text \<open>\<open>for (let attempt = 0; attempt < PROVIDER_RETRY_LIMIT; attempt++)\<close>, entered with
  the given \<open>attempt\<close>.\<close>

function providerLoop ::
  "VideoWorld \<Rightarrow> VideoGenerationPayload \<Rightarrow> nat \<Rightarrow> Locals \<Rightarrow> video_event list
     \<Rightarrow> Locals \<times> video_event list" where
  "providerLoop world payload attempt l trace =
     (if attempt < PROVIDER_RETRY_LIMIT then
        (case tryDID world payload attempt l of
           Inr l' \<Rightarrow> (l', trace @ [CallDID attempt])
         | Inl (error, l1) \<Rightarrow>
             (let l2 = l1\<lparr> cur_provider := JOGG \<rparr>
              in case tryJOGG world payload attempt l2 of
                   Inr l' \<Rightarrow> (l', trace @ [CallDID attempt, CallJOGG attempt])
                 | Inl (joggError, l3) \<Rightarrow>
                     providerLoop world payload (Suc attempt)
                       (l3\<lparr> cur_errorMessage := Some (message joggError), cur_status := Failed \<rparr>)
                       (trace @ [CallDID attempt, CallJOGG attempt])))
      else (l, trace))"
  by pat_completeness auto
termination
  by (relation "measure (\<lambda>(world, payload, attempt, l, trace). PROVIDER_RETRY_LIMIT - attempt)")
     auto

declare providerLoop.simps [simp del]

definition initialLocals :: Locals where
  "initialLocals =
     \<lparr> cur_provider = D_ID, cur_providerResponse = None, cur_videoUrl = Some [],
       cur_errorMessage = None, cur_status = Failed \<rparr>"

definition generateAvatarVideo_run ::
  "VideoWorld \<Rightarrow> VideoGenerationPayload \<Rightarrow> jsstring \<Rightarrow> jsstring \<Rightarrow> jsstring \<Rightarrow> jsstring
     \<Rightarrow> (error + VideoGenerationResult) \<times> video_event list" where
  "generateAvatarVideo_run world payload userId dialogueId selectedTemplateId videoId =
     (let (l, trace) = providerLoop world payload 0 initialLocals []
      in case (if truthy (cur_videoUrl l) then cur_videoUrl l else None) of
           None \<Rightarrow>
             (Inr \<lparr> videoUrl = [], provider = cur_provider l, status = Failed,
                    errorMessage =
                      (if truthy (cur_errorMessage l) then cur_errorMessage l
                       else Some (js ''Both video providers failed to generate video.'')),
                    duration = None, providerResponse = None \<rparr>,
              trace)
         | Some url \<Rightarrow>
             (case uploadVideoToStorage world url userId dialogueId 0 trace of
                (Inl storageError, trace') \<Rightarrow>
                  (Inr \<lparr> videoUrl = [], provider = cur_provider l, status = Failed,
                         errorMessage = Some (message storageError),
                         duration = None, providerResponse = None \<rparr>,
                   trace')
              | (Inr storageUrl, trace') \<Rightarrow>
                  (Inr \<lparr> videoUrl = storageUrl, provider = cur_provider l, status = Completed,
                         errorMessage = cur_errorMessage l,
                         duration = None, providerResponse = cur_providerResponse l \<rparr>,
                   trace')))"

definition generateAvatarVideo ::
  "VideoWorld \<Rightarrow> VideoGenerationPayload \<Rightarrow> jsstring \<Rightarrow> jsstring \<Rightarrow> jsstring \<Rightarrow> jsstring
     \<Rightarrow> error + VideoGenerationResult" where
  "generateAvatarVideo world payload userId dialogueId selectedTemplateId videoId =
     fst (generateAvatarVideo_run world payload userId dialogueId selectedTemplateId videoId)"

section \<open>The rule table of the specification\<close>

text \<open>
  The specification gives template selection as an ordered table of rules, evaluated from
  the top, the first rule that applies giving the template and the confidence, and a
  default when none applies. \<open>spec_rule_table\<close> is that table and \<open>spec_first_match\<close>
  its evaluation; the code's \<open>if\<close> chain is compared with them below.
\<close>

definition spec_rule_table :: "((SelectionFactors \<Rightarrow> bool) \<times> jsstring \<times> real) list" where
  "spec_rule_table =
     [(\<lambda>f. riskIndicators f > 0, js ''crisis-support-therapist'', 0.95),
      (\<lambda>f. overallMood f = js ''positive'' \<and> sentimentScore f > 0.6 \<and>
            primaryEmotion f \<in> set [js ''joy'', js ''excitement'', js ''happiness''],
       js ''motivational-coach'', 0.85),
      (\<lambda>f. overallMood f = js ''negative'' \<and> sentimentScore f < - 0.6 \<and>
            primaryEmotion f \<in> set [js ''sadness'', js ''anxiety'', js ''stress''],
       js ''empathetic-therapist'', 0.90),
      (\<lambda>f. overallMood f = js ''negative'' \<and> sentimentScore f < - 0.2,
       js ''supportive-counselor'', 0.80),
      (\<lambda>f. overallMood f = js ''neutral'' \<and> intensityLevel f = Low,
       js ''life-coach'', 0.75),
      (\<lambda>f. set (keyThemes f) \<inter> set [js ''work'', js ''career'', js ''professional''] \<noteq> {},
       js ''career-counselor'', 0.85),
      (\<lambda>f. set (keyThemes f) \<inter> set [js ''family'', js ''relationship'', js ''marriage''] \<noteq> {},
       js ''family-therapist'', 0.85),
      (\<lambda>f. set (keyThemes f) \<inter> set [js ''health'', js ''wellness'', js ''fitness''] \<noteq> {},
       js ''wellness-coach'', 0.80)]"

definition spec_first_match :: "SelectionFactors \<Rightarrow> jsstring \<times> real" where
  "spec_first_match f =
     (case find (\<lambda>(applies, outcome). applies f) spec_rule_table of
        Some (applies, outcome) \<Rightarrow> outcome
      | None \<Rightarrow> (js ''general-therapist'', 0.70))"

section \<open>Inputs used in the worked examples\<close>

text \<open>A profile with positive mood, high positive sentiment and joy, and one risk indicator.\<close>

definition joyfulRiskProfile :: MoodAnalysis where
  "joyfulRiskProfile =
     \<lparr> overall_mood = js ''positive'', confidence_score = 0.9,
       emotions = [\<lparr> name = js ''joy'', intensity = 0.9, confidence = 0.9 \<rparr>],
       sentiment_score = 0.8, key_themes = [js ''work''],
       risk_indicators = [js ''hopeless''], recommendations = [] \<rparr>"



section \<open>The retry schedule of the specification\<close>

text \<open>
  The specification's schedule for one adapter whose last attempt has index \<open>k\<close>:
  attempts 0 to \<open>k\<close>, and between attempt \<open>i\<close> and the next one a wait of
  \<open>retryDelayMs * 2^i\<close> milliseconds. \<open>attempts\<close> counts the attempts on a provider
  in a trace.
\<close>

definition backoffSchedule :: "Provider \<Rightarrow> nat \<Rightarrow> event list" where
  "backoffSchedule p k =
     concat (map (\<lambda>i. [Attempt p i, Delay (retryDelayMs * 2 ^ i)]) [0..<k]) @ [Attempt p k]"

fun isAttemptOf :: "Provider \<Rightarrow> event \<Rightarrow> bool" where
  "isAttemptOf p (Attempt q n) = (p = q)"
| "isAttemptOf p (Delay ms) = False"

definition attempts :: "Provider \<Rightarrow> event list \<Rightarrow> nat" where
  "attempts p trace = length (filter (isAttemptOf p) trace)"

text \<open>ElevenLabs hears a risk keyword, with transcription confidence 0.3.\<close>

definition hopelessTranscript :: jsstring where
  "hopelessTranscript = js ''I feel HOPELESS''"

definition lowConfidenceWorld :: World where
  "lowConfidenceWorld =
     \<lparr> ELEVENLABS_API_KEY = js ''el-key'',
       GOOGLE_AI_STUDIO_API_KEY = js ''g-key'',
       fetch_elevenlabs_speech_to_text =
         (\<lambda>audio attempt. Response True
            (Some \<lparr> el_text = hopelessTranscript, el_confidence = 0.3,
                    el_language = Some (js ''en'') \<rparr>)),
       fetch_elevenlabs_sentiment =
         (\<lambda>text attempt. Response True
            (Some \<lparr> el_sentiment = js ''negative'', el_sentiment_confidence = 0.9,
                    el_emotions = [\<lparr> reported_name = js ''sadness'', reported_intensity = 0.9 \<rparr>] \<rparr>)),
       fetch_google_speech_recognize = (\<lambda>audio attempt. Rejected (js ''unreachable'')),
       fetch_google_analyze_sentiment = (\<lambda>text attempt. Rejected (js ''unreachable'')),
       Date_now = (\<lambda>n. 1000 + 250 * int n) \<rparr>"

text \<open>ElevenLabs transcribes with confidence 0.95 and reports no emotion at all.\<close>

definition helloTranscript :: jsstring where
  "helloTranscript = js ''hello''"

definition noEmotionWorld :: World where
  "noEmotionWorld =
     \<lparr> ELEVENLABS_API_KEY = js ''el-key'',
       GOOGLE_AI_STUDIO_API_KEY = js ''g-key'',
       fetch_elevenlabs_speech_to_text =
         (\<lambda>audio attempt. Response True
            (Some \<lparr> el_text = helloTranscript, el_confidence = 0.95, el_language = None \<rparr>)),
       fetch_elevenlabs_sentiment =
         (\<lambda>text attempt. Response True
            (Some \<lparr> el_sentiment = js ''neutral'', el_sentiment_confidence = 0.8,
                    el_emotions = [] \<rparr>)),
       fetch_google_speech_recognize = (\<lambda>audio attempt. Rejected (js ''unreachable'')),
       fetch_google_analyze_sentiment = (\<lambda>text attempt. Rejected (js ''unreachable'')),
       Date_now = (\<lambda>n. 1000 + 250 * int n) \<rparr>"

text \<open>ElevenLabs is unreachable; Google answers HTTP 429 once and then succeeds.\<close>

definition googleText :: jsstring where
  "googleText = js ''Google transcript test''"

definition flakyWorld :: World where
  "flakyWorld =
     \<lparr> ELEVENLABS_API_KEY = js ''el-key'',
       GOOGLE_AI_STUDIO_API_KEY = js ''g-key'',
       fetch_elevenlabs_speech_to_text = (\<lambda>audio attempt. Rejected (js ''ElevenLabs API error'')),
       fetch_elevenlabs_sentiment = (\<lambda>text attempt. Rejected (js ''ElevenLabs API error'')),
       fetch_google_speech_recognize =
         (\<lambda>audio attempt.
            if attempt = 0 then Response False None
            else Response True
                   (Some \<lparr> results = [\<lparr> alternatives =
                                          [\<lparr> alt_transcript = googleText, alt_confidence = 0.92 \<rparr>] \<rparr>],
                           languageCode = None \<rparr>)),
       fetch_google_analyze_sentiment =
         (\<lambda>text attempt. Response True
            (Some \<lparr> documentSentiment = \<lparr> score = 0.7, magnitude = 1.2 \<rparr> \<rparr>)),
       Date_now = (\<lambda>n. 1000 + 7000 * int n) \<rparr>"

definition flakyResult :: AnalysisResult where
  "flakyResult =
     \<lparr> transcript = googleText,
       language = js ''english'',
       moodAnalysis =
         \<lparr> overall_mood = js ''positive'', confidence_score = 0.7,
           emotions = [\<lparr> name = js ''joy'', intensity = 0.7, confidence = 0.8 \<rparr>],
           sentiment_score = 0.7, key_themes = [], risk_indicators = [],
           recommendations = [js ''Continue with current positive practices'',
                              js ''Share your positive experiences with others''] \<rparr>,
       result_confidence = 0.92,
       apiUsed = js ''google'',
       processingTime = 7000,
       metadata = \<lparr> retryCount = 0, meta_fallbackUsed = True,
                    neutralFallbackApplied = False, languageOverride = False \<rparr> \<rparr>"

text \<open>Every request to either provider is rejected.\<close>

definition deadWorld :: World where
  "deadWorld =
     \<lparr> ELEVENLABS_API_KEY = js ''el-key'',
       GOOGLE_AI_STUDIO_API_KEY = js ''g-key'',
       fetch_elevenlabs_speech_to_text = (\<lambda>audio attempt. Rejected (js ''API error'')),
       fetch_elevenlabs_sentiment = (\<lambda>text attempt. Rejected (js ''API error'')),
       fetch_google_speech_recognize = (\<lambda>audio attempt. Rejected (js ''API error'')),
       fetch_google_analyze_sentiment = (\<lambda>text attempt. Rejected (js ''API error'')),
       Date_now = (\<lambda>n. 1000 + 14000 * int n) \<rparr>"

text \<open>Inputs of the video stage.\<close>

definition samplePayload :: VideoGenerationPayload where
  "samplePayload =
     \<lparr> payload_transcript = js ''Hello, this is a test transcript.'',
       payload_moodAnalysis = None, payload_templateMetadata = None \<rparr>"

definition didUrl :: jsstring where
  "didUrl = js ''https://d-id.com/video123.mp4''"


definition blobUrl :: jsstring where
  "blobUrl = js ''https://storage.example.com/video.mp4''"


text \<open>D-ID answers with a video URL, and every download of it fails.\<close>

definition downloadFailsWorld :: VideoWorld where
  "downloadFailsWorld =
     \<lparr> post_did = (\<lambda>payload attempt. Inr (Some \<lparr> video_url = Some didUrl, download_url = None \<rparr>)),
       post_jogg = (\<lambda>payload attempt. Inl (Error (js ''JOGG API unavailable''))),
       axios_get = (\<lambda>url retry. Inl (Error (js ''Download failed''))),
       uploadBuffer = (\<lambda>buffer fileName retry. Inr blobUrl),
       timestamp = (\<lambda>retry. js ''1700000000000'') \<rparr>"

section \<open>Basic facts\<close>

lemma js_eq_iff [simp]: "js a = js b \<longleftrightarrow> a = b"
  by (simp add: inj_map_eq_map inj_of_char)

lemma try_catch_Inr [simp]: "try_catch (Inr v) h = Inr v"
  by (simp add: try_catch_def)

lemma try_catch_Inl [simp]: "try_catch (Inl e) h = h e"
  by (simp add: try_catch_def)

lemma list_ex_inter: "list_ex (\<lambda>x. x \<in> A) xs \<longleftrightarrow> set xs \<inter> A \<noteq> {}"
  by (auto simp: list_ex_iff)

lemma if_chain_first_match:
  fixes f :: 'f and t1 :: 't and k1 :: 'k and w1 :: 'w
  shows
  "(let (tid, conf, why) =
        (if p1 f then (t1, k1, w1)
         else if p2 f then (t2, k2, w2)
         else if p3 f then (t3, k3, w3)
         else if p4 f then (t4, k4, w4)
         else if p5 f then (t5, k5, w5)
         else if p6 f then (t6, k6, w6)
         else if p7 f then (t7, k7, w7)
         else if p8 f then (t8, k8, w8)
         else (t9, k9, w9))
    in (tid, conf)) =
   (case find (\<lambda>(applies, outcome). applies f)
           [(p1, t1, k1), (p2, t2, k2), (p3, t3, k3), (p4, t4, k4),
            (p5, t5, k5), (p6, t6, k6), (p7, t7, k7), (p8, t8, k8)] of
      Some (applies, outcome) \<Rightarrow> outcome
    | None \<Rightarrow> (t9, k9))"
  by simp

lemma applySelectionLogic_outcome:
  "(templateId (applySelectionLogic f), suggestionConfidence (applySelectionLogic f)) =
   (let (tid, conf, why) =
        (if riskIndicators f > 0 then
           (js ''crisis-support-therapist'', 0.95,
            js ''Risk indicators detected - using crisis support template'')
         else if overallMood f = js ''positive'' \<and> sentimentScore f > 0.6 \<and>
                 primaryEmotion f \<in> set [js ''joy'', js ''excitement'', js ''happiness''] then
           (js ''motivational-coach'', 0.85,
            js ''High positive sentiment with joy - using motivational coach template'')
         else if overallMood f = js ''negative'' \<and> sentimentScore f < - 0.6 \<and>
                 primaryEmotion f \<in> set [js ''sadness'', js ''anxiety'', js ''stress''] then
           (js ''empathetic-therapist'', 0.90,
            js ''High negative sentiment with distress - using empathetic therapist template'')
         else if overallMood f = js ''negative'' \<and> sentimentScore f < - 0.2 then
           (js ''supportive-counselor'', 0.80,
            js ''Moderate negative sentiment - using supportive counselor template'')
         else if overallMood f = js ''neutral'' \<and> intensityLevel f = Low then
           (js ''life-coach'', 0.75,
            js ''Neutral mood with low intensity - using life coach template'')
         else if list_ex (\<lambda>theme. theme \<in> set [js ''work'', js ''career'', js ''professional''])
                   (keyThemes f) then
           (js ''career-counselor'', 0.85,
            js ''Work-related themes detected - using career counselor template'')
         else if list_ex (\<lambda>theme. theme \<in> set [js ''family'', js ''relationship'', js ''marriage''])
                   (keyThemes f) then
           (js ''family-therapist'', 0.85,
            js ''Family-related themes detected - using family therapist template'')
         else if list_ex (\<lambda>theme. theme \<in> set [js ''health'', js ''wellness'', js ''fitness''])
                   (keyThemes f) then
           (js ''wellness-coach'', 0.80,
            js ''Health-related themes detected - using wellness coach template'')
         else
           (js ''general-therapist'', 0.70,
            js ''General mood profile - using general therapist template''))
    in (tid, conf))"
  unfolding applySelectionLogic_def Let_def
  by (simp only: split_beta TemplateSuggestion.simps)

lemma applySelectionLogic_first_match:
  "(templateId (applySelectionLogic f), suggestionConfidence (applySelectionLogic f)) = spec_first_match f"
  unfolding applySelectionLogic_outcome spec_first_match_def spec_rule_table_def list_ex_inter [symmetric]
  by (rule if_chain_first_match)


lemma risk_rule_first:
  "risk_indicators m \<noteq> [] \<Longrightarrow>
     applySelectionLogic (extractSelectionFactors m) =
       \<lparr> templateId = js ''crisis-support-therapist'', suggestionConfidence = 0.95,
         reasoning = js ''Risk indicators detected - using crisis support template'',
         fallbackUsed = False \<rparr>"
  by (simp add: applySelectionLogic_def extractSelectionFactors_def)

section \<open>Template suggestion\<close>

text \<open>
  Claim C4. \<open>suggestTemplate\<close> evaluates its rules from the top and the first rule that
  applies wins: on every profile the template and the confidence it returns are those of
  the first matching row of the specification's rule table (the default row when none
  matches). In particular, whenever \<open>risk_indicators\<close> is not empty the suggestion is
  \<open>crisis-support-therapist\<close> with confidence 0.95, whatever the mood, the sentiment
  score, the emotions and the themes are.
\<close>

theorem suggestTemplate_rule_priority:
  "(\<exists>s. suggestTemplate (Some m) = Inr s \<and> fallbackUsed s = False \<and>
        (templateId s, suggestionConfidence s) = spec_first_match (extractSelectionFactors m)) \<and>
   (risk_indicators m \<noteq> [] \<longrightarrow>
      suggestTemplate (Some m) =
        Inr \<lparr> templateId = js ''crisis-support-therapist'', suggestionConfidence = 0.95,
              reasoning = js ''Risk indicators detected - using crisis support template'',
              fallbackUsed = False \<rparr>)"
proof -
  have run: "suggestTemplate (Some m) = Inr (applySelectionLogic (extractSelectionFactors m))"
    by (simp add: suggestTemplate_def suggestTemplate_body_def)
  have flag: "fallbackUsed (applySelectionLogic f) = False" for f
    by (simp add: applySelectionLogic_def split_beta Let_def)
  from run flag applySelectionLogic_first_match risk_rule_first show ?thesis
    by auto
qed

theorem suggestTemplate_rule_priority_witness:
  "risk_indicators joyfulRiskProfile \<noteq> [] \<and>
   overall_mood joyfulRiskProfile = js ''positive'' \<and>
   sentiment_score joyfulRiskProfile > 0.6 \<and>
   suggestTemplate (Some joyfulRiskProfile) =
     Inr \<lparr> templateId = js ''crisis-support-therapist'', suggestionConfidence = 0.95,
           reasoning = js ''Risk indicators detected - using crisis support template'',
           fallbackUsed = False \<rparr>"
proof -
  have h: "risk_indicators joyfulRiskProfile \<noteq> []"
    by (simp add: joyfulRiskProfile_def)
  have p: "overall_mood joyfulRiskProfile = js ''positive'' \<and> sentiment_score joyfulRiskProfile > 0.6"
    by (simp add: joyfulRiskProfile_def)
  from suggestTemplate_rule_priority [of joyfulRiskProfile] h p show ?thesis
    by blast
qed

text \<open>
  Claim C8. \<open>suggestTemplate\<close> never lets an exception out: it always returns a
  suggestion, and whenever the body of its \<open>try\<close> block throws (as it does on a
  \<open>null\<close> mood analysis) the suggestion is the default one, with template
  \<open>default-therapist\<close>, confidence 0 and \<open>fallbackUsed = true\<close>.
\<close>

theorem suggestTemplate_never_throws:
  "(\<exists>s. suggestTemplate m = Inr s) \<and>
   (\<forall>e. suggestTemplate_body m = Inl e \<longrightarrow>
        suggestTemplate m =
          Inr \<lparr> templateId = js ''default-therapist'', suggestionConfidence = 0,
                reasoning = js ''Default template used due to analysis error'',
                fallbackUsed = True \<rparr>)"
  by (cases "suggestTemplate_body m") (simp_all add: suggestTemplate_def defaultTemplateId_def)

theorem suggestTemplate_never_throws_witness:
  "suggestTemplate_body None = Inl (TypeError (js ''Cannot read properties of null (reading overall_mood)'')) \<and>
   suggestTemplate None =
     Inr \<lparr> templateId = js ''default-therapist'', suggestionConfidence = 0,
           reasoning = js ''Default template used due to analysis error'',
           fallbackUsed = True \<rparr>"
proof -
  have h: "suggestTemplate_body None = Inl (TypeError (js ''Cannot read properties of null (reading overall_mood)''))"
    by (simp add: suggestTemplate_body_def)
  from suggestTemplate_never_throws [of None] h show ?thesis by blast
qed

section \<open>Template validation and fallback\<close>





section \<open>The retry loop\<close>

lemma retryLoop_success:
  "attempt \<le> maxRetries \<Longrightarrow> body attempt = Inr r \<Longrightarrow>
     retryLoop p body attempt tr = (Some r, tr @ [Attempt p attempt])"
  by (subst retryLoop.simps) simp

lemma retryLoop_failure:
  "attempt \<le> maxRetries \<Longrightarrow> body attempt = Inl e \<Longrightarrow>
     retryLoop p body attempt tr =
       retryLoop p body (Suc attempt)
         (tr @ [Attempt p attempt] @
            (if attempt < maxRetries then [Delay (retryDelayMs * 2 ^ attempt)] else []))"
  by (subst retryLoop.simps) simp

lemma retryLoop_done:
  "\<not> attempt \<le> maxRetries \<Longrightarrow> retryLoop p body attempt tr = (None, tr)"
  by (subst retryLoop.simps) simp

text \<open>The loop entered at attempt \<open>a\<close> makes the attempts \<open>a\<close> to \<open>k\<close>, where
  \<open>k\<close> is the first attempt that succeeds or else the last one allowed, and waits
  after each attempt but the last.\<close>

lemma retryLoop_schedule:
  "a \<le> maxRetries \<Longrightarrow>
     \<exists>k. a \<le> k \<and> k \<le> maxRetries \<and>
         snd (retryLoop p body a tr) =
           tr @ concat (map (\<lambda>i. [Attempt p i, Delay (retryDelayMs * 2 ^ i)]) [a..<k]) @ [Attempt p k] \<and>
         (\<forall>i. a \<le> i \<and> i < k \<longrightarrow> isl (body i)) \<and>
         (case fst (retryLoop p body a tr) of
            None \<Rightarrow> k = maxRetries \<and> isl (body k)
          | Some r \<Rightarrow> body k = Inr r)"
proof (induction p body a tr rule: retryLoop.induct)
  case (1 p body a tr)
  show ?case
  proof (cases "body a")
    case (Inr r)
    with "1.prems" show ?thesis
      by (intro exI [of _ a]) (auto simp: retryLoop_success)
  next
    case (Inl e)
    show ?thesis
    proof (cases "a < maxRetries")
      case False
      with "1.prems" have eq: "a = maxRetries" by simp
      with Inl have "retryLoop p body a tr = (None, tr @ [Attempt p a])"
        by (simp add: retryLoop_failure retryLoop_done)
      with eq Inl show ?thesis
        by (intro exI [of _ a]) auto
    next
      case True
      then have le: "Suc a \<le> maxRetries" by simp
      let ?tr = "tr @ [Attempt p a] @ (if a < maxRetries then [Delay (retryDelayMs * 2 ^ a)] else [])"
      from "1.IH" [OF "1.prems" Inl le]
      obtain k where k: "Suc a \<le> k" "k \<le> maxRetries"
        "snd (retryLoop p body (Suc a) ?tr) =
           ?tr @ concat (map (\<lambda>i. [Attempt p i, Delay (retryDelayMs * 2 ^ i)]) [Suc a..<k]) @ [Attempt p k]"
        "\<forall>i. Suc a \<le> i \<and> i < k \<longrightarrow> isl (body i)"
        "case fst (retryLoop p body (Suc a) ?tr) of
            None \<Rightarrow> k = maxRetries \<and> isl (body k)
          | Some r \<Rightarrow> body k = Inr r"
        by blast
      have unfold: "retryLoop p body a tr = retryLoop p body (Suc a) ?tr"
        using "1.prems" Inl by (rule retryLoop_failure)
      have up: "[a..<k] = a # [Suc a..<k]"
        using k(1) by (simp add: upt_conv_Cons)
      have all: "\<forall>i. a \<le> i \<and> i < k \<longrightarrow> isl (body i)"
      proof (intro allI impI)
        fix i assume "a \<le> i \<and> i < k"
        then consider "i = a" | "Suc a \<le> i \<and> i < k" by linarith
        then show "isl (body i)" using Inl k(4) by cases auto
      qed
      show ?thesis
        apply (rule exI [of _ k])
        using k(1,2,3,5) True all
        by (simp add: unfold up)
    qed
  qed
qed

lemma retryLoop_from_zero:
  "\<exists>k \<le> maxRetries.
     snd (retryLoop p body 0 tr) = tr @ backoffSchedule p k \<and>
     (\<forall>i < k. isl (body i)) \<and>
     (case fst (retryLoop p body 0 tr) of
        None \<Rightarrow> k = maxRetries \<and> isl (body k)
      | Some r \<Rightarrow> body k = Inr r)"
  using retryLoop_schedule [of 0 p body tr] by (auto simp: backoffSchedule_def)

lemma retryLoop_None_iff:
  "fst (retryLoop p body 0 tr) = None \<longleftrightarrow> (\<forall>n \<le> maxRetries. isl (body n))"
proof -
  from retryLoop_from_zero [of p body tr]
  obtain k where k: "k \<le> maxRetries" "\<forall>i < k. isl (body i)"
    "case fst (retryLoop p body 0 tr) of
        None \<Rightarrow> k = maxRetries \<and> isl (body k)
      | Some r \<Rightarrow> body k = Inr r"
    by blast
  show ?thesis
  proof (cases "fst (retryLoop p body 0 tr)")
    case None
    with k(3) have "k = maxRetries" "isl (body k)" by auto
    with k(2) have "\<forall>n \<le> maxRetries. isl (body n)"
      by (metis le_neq_implies_less)
    with None show ?thesis by simp
  next
    case (Some r)
    with k have "body k = Inr r" by simp
    with k(1) have "\<not> (\<forall>n \<le> maxRetries. isl (body n))" by auto
    with Some show ?thesis by simp
  qed
qed

lemma attempts_schedule_prefix:
  "length (filter (isAttemptOf p) (concat (map (\<lambda>i. [Attempt q i, Delay (f i)]) [0..<k]))) =
     (if p = q then k else 0)"
  by (induction k) simp_all

lemma attempts_backoffSchedule: "attempts p (backoffSchedule q k) = (if p = q then Suc k else 0)"
  by (simp add: attempts_def backoffSchedule_def attempts_schedule_prefix)

section \<open>The provider chain of the mood analysis\<close>

lemma providerChain_cases:
  "providerChain world buf rc = (fb, res, tr) \<Longrightarrow>
     (\<not> fb \<and> res \<noteq> None \<and> tryElevenLabsAnalysis world buf rc [] = (res, tr)) \<or>
     (fb \<and> fst (tryElevenLabsAnalysis world buf rc []) = None \<and>
        tryGoogleAIAnalysis world buf rc (snd (tryElevenLabsAnalysis world buf rc [])) = (res, tr))"
  by (auto simp: providerChain_def split: prod.splits option.splits)

lemma retryLoop_Some_attempt:
  "retryLoop p body 0 tr = (Some r, tr') \<Longrightarrow> \<exists>n \<le> maxRetries. body n = Inr r"
  using retryLoop_from_zero [of p body tr] by auto

lemma providerChain_Some_attempt:
  assumes "providerChain world buf rc = (fb, Some pr, tr)"
  shows "\<exists>n \<le> maxRetries.
           (\<not> fb \<and> elevenLabsAttempt world buf n = Inr pr) \<or>
           (fb \<and> googleAttempt world buf n = Inr pr)"
proof -
  from providerChain_cases [OF assms]
  consider (el) "\<not> fb" "tryElevenLabsAnalysis world buf rc [] = (Some pr, tr)"
    | (g) "fb" "tryGoogleAIAnalysis world buf rc (snd (tryElevenLabsAnalysis world buf rc [])) = (Some pr, tr)"
    by auto
  then show ?thesis
  proof cases
    case el
    from el(2) have "retryLoop ElevenLabs (elevenLabsAttempt world buf) 0 [] = (Some pr, tr)"
      by (simp add: tryElevenLabsAnalysis_def split: if_splits)
    from retryLoop_Some_attempt [OF this] el(1) show ?thesis by blast
  next
    case g
    from g(2) have "retryLoop Google (googleAttempt world buf) 0
        (snd (tryElevenLabsAnalysis world buf rc [])) = (Some pr, tr)"
      by (simp add: tryGoogleAIAnalysis_def split: if_splits)
    from retryLoop_Some_attempt [OF this] g(1) show ?thesis by blast
  qed
qed

lemma elevenLabsAttempt_Inr:
  "elevenLabsAttempt world buf n = Inr pr \<Longrightarrow>
     \<exists>t s. callElevenLabsTranscription world buf n = Some t \<and> el_text t \<noteq> [] \<and>
           callElevenLabsSentiment world (el_text t) n = Some s \<and>
           pr_transcript pr = el_text t \<and> pr_confidence pr = el_confidence t \<and>
           emotions (pr_moodAnalysis pr) =
             map (\<lambda>emotion. \<lparr> name = reported_name emotion, intensity = reported_intensity emotion,
                                confidence = el_sentiment_confidence s \<rparr>) (el_emotions s)"
  by (auto simp: elevenLabsAttempt_def Let_def split: option.splits if_splits)

lemma googleAttempt_Inr:
  "googleAttempt world buf n = Inr pr \<Longrightarrow>
     \<exists>t s. callGoogleAITranscription world buf n = Some t \<and> results t \<noteq> [] \<and>
           callGoogleAISentiment world (googleTranscript (results t)) n = Some s \<and>
           pr_transcript pr = googleTranscript (results t) \<and>
           pr_confidence pr = googleConfidence (results t) \<and>
           emotions (pr_moodAnalysis pr) = mapGoogleSentimentToEmotions (documentSentiment s)"
  by (auto simp: googleAttempt_def Let_def split: option.splits if_splits)

lemma googleConfidence_reported_low:
  "rs = r # rest \<Longrightarrow> alternatives r = a # others \<Longrightarrow> alt_confidence a < 0.6 \<Longrightarrow>
     googleConfidence rs < 0.6"
  by (simp add: googleConfidence_def)

lemma mapGoogleSentimentToEmotions_nonempty: "mapGoogleSentimentToEmotions d \<noteq> []"
  by (simp add: mapGoogleSentimentToEmotions_def)

lemma analyzeAudio_Some:
  "providerChain world buf 0 = (fb, Some pr, tr) \<Longrightarrow>
     analyzeAudio world buf lang =
       Inr \<lparr> transcript = pr_transcript pr,
             language = detectLanguage (pr_transcript pr),
             moodAnalysis = (if pr_confidence pr < 0.6 then applyNeutralFallback (pr_moodAnalysis pr)
                             else pr_moodAnalysis pr),
             result_confidence = pr_confidence pr,
             apiUsed = (if fb then js ''google'' else js ''elevenlabs''),
             processingTime = Date_now world 1 - Date_now world 0,
             metadata = \<lparr> retryCount = 0, meta_fallbackUsed = fb,
                          neutralFallbackApplied = (pr_confidence pr < 0.6),
                          languageOverride =
                            (case lang of
                               None \<Rightarrow> False
                             | Some l \<Rightarrow> l \<noteq> [] \<and> l \<noteq> js ''unknown'' \<and>
                                   detectLanguage (pr_transcript pr) \<noteq> l) \<rparr> \<rparr>"
  by (simp add: analyzeAudio_def analyzeAudio_run_def Let_def)

lemma analyzeAudio_None:
  "providerChain world buf 0 = (fb, None, tr) \<Longrightarrow>
     analyzeAudio world buf lang =
       Inr \<lparr> transcript = [],
             language = js ''unknown'',
             moodAnalysis = createNeutralMoodAnalysis,
             result_confidence = 0,
             apiUsed = js ''fallback'',
             processingTime = Date_now world 1 - Date_now world 0,
             metadata = \<lparr> retryCount = 0, meta_fallbackUsed = True,
                          neutralFallbackApplied = True, languageOverride = False \<rparr> \<rparr>"
  by (simp add: analyzeAudio_def analyzeAudio_run_def Let_def)

lemma providerChain_None_iff:
  "fst (snd (providerChain world buf rc)) = None \<longleftrightarrow>
     (ELEVENLABS_API_KEY world = [] \<or> (\<forall>n \<le> maxRetries. isl (elevenLabsAttempt world buf n))) \<and>
     (GOOGLE_AI_STUDIO_API_KEY world = [] \<or> (\<forall>n \<le> maxRetries. isl (googleAttempt world buf n)))"
proof -
  have el: "fst (tryElevenLabsAnalysis world buf rc tr) = None \<longleftrightarrow>
      ELEVENLABS_API_KEY world = [] \<or> (\<forall>n \<le> maxRetries. isl (elevenLabsAttempt world buf n))" for tr
    by (simp add: tryElevenLabsAnalysis_def retryLoop_None_iff)
  have g: "fst (tryGoogleAIAnalysis world buf rc tr) = None \<longleftrightarrow>
      GOOGLE_AI_STUDIO_API_KEY world = [] \<or> (\<forall>n \<le> maxRetries. isl (googleAttempt world buf n))" for tr
    by (simp add: tryGoogleAIAnalysis_def retryLoop_None_iff)
  show ?thesis
  proof (cases "tryElevenLabsAnalysis world buf rc []")
    case (Pair first tr1)
    show ?thesis
    proof (cases first)
      case None
      with Pair el [of "[]"] g [of tr1] show ?thesis
        by (simp add: providerChain_def)
    next
      case (Some r)
      with Pair el [of "[]"] show ?thesis
        by (simp add: providerChain_def)
    qed
  qed
qed

section \<open>Worked runs of the mood analysis\<close>

lemma hopeless_risk: "detectRiskIndicators hopelessTranscript = [js ''hopeless'']"
  by (simp add: detectRiskIndicators_def riskKeywords_def toLowerCase_def hopelessTranscript_def)

lemma hopeless_themes: "extractKeyThemes hopelessTranscript = []"
  by (simp add: extractKeyThemes_def commonThemes_def toLowerCase_def isWhitespace_def
      hopelessTranscript_def)

lemma hopeless_language: "detectLanguage hopelessTranscript = js ''english''"
  by (simp add: detectLanguage_def hopelessTranscript_def)

lemma hopeless_nonempty: "hopelessTranscript \<noteq> []"
  by (simp add: hopelessTranscript_def)

lemma low_attempt:
  "elevenLabsAttempt lowConfidenceWorld [] 0 =
     Inr \<lparr> pr_transcript = hopelessTranscript,
           pr_moodAnalysis =
             \<lparr> overall_mood = js ''negative'', confidence_score = 0.9,
               emotions = [\<lparr> name = js ''sadness'', intensity = 0.9, confidence = 0.9 \<rparr>],
               sentiment_score = - 0.8, key_themes = [],
               risk_indicators = [js ''hopeless''],
               recommendations = [js ''Consider speaking with a mental health professional'',
                                  js ''Practice self-care and stress management techniques''] \<rparr>,
           pr_confidence = 0.3 \<rparr>"
  by (simp add: elevenLabsAttempt_def lowConfidenceWorld_def callElevenLabsTranscription_def
      callElevenLabsSentiment_def call_api_def hopeless_risk hopeless_themes hopeless_nonempty
      mapSentimentToScore_def generateRecommendations_def)

lemma low_chain:
  "providerChain lowConfidenceWorld [] 0 =
     (False,
      Some \<lparr> pr_transcript = hopelessTranscript,
           pr_moodAnalysis =
             \<lparr> overall_mood = js ''negative'', confidence_score = 0.9,
               emotions = [\<lparr> name = js ''sadness'', intensity = 0.9, confidence = 0.9 \<rparr>],
               sentiment_score = - 0.8, key_themes = [],
               risk_indicators = [js ''hopeless''],
               recommendations = [js ''Consider speaking with a mental health professional'',
                                  js ''Practice self-care and stress management techniques''] \<rparr>,
           pr_confidence = 0.3 \<rparr>,
      [Attempt ElevenLabs 0])"
proof -
  have key: "ELEVENLABS_API_KEY lowConfidenceWorld \<noteq> []"
    by (simp add: lowConfidenceWorld_def)
  have "retryLoop ElevenLabs (elevenLabsAttempt lowConfidenceWorld []) 0 [] =
      (Some \<lparr> pr_transcript = hopelessTranscript,
           pr_moodAnalysis =
             \<lparr> overall_mood = js ''negative'', confidence_score = 0.9,
               emotions = [\<lparr> name = js ''sadness'', intensity = 0.9, confidence = 0.9 \<rparr>],
               sentiment_score = - 0.8, key_themes = [],
               risk_indicators = [js ''hopeless''],
               recommendations = [js ''Consider speaking with a mental health professional'',
                                  js ''Practice self-care and stress management techniques''] \<rparr>,
           pr_confidence = 0.3 \<rparr>, [] @ [Attempt ElevenLabs 0])"
    by (rule retryLoop_success) (simp_all add: low_attempt)
  with key show ?thesis
    by (simp add: providerChain_def tryElevenLabsAnalysis_def)
qed

lemma retryLoop_failure_isl:
  "attempt \<le> maxRetries \<Longrightarrow> isl (body attempt) \<Longrightarrow>
     retryLoop p body attempt tr =
       retryLoop p body (Suc attempt)
         (tr @ [Attempt p attempt] @
            (if attempt < maxRetries then [Delay (retryDelayMs * 2 ^ attempt)] else []))"
  by (cases "body attempt") (simp_all add: retryLoop_failure)

lemma hello_facts:
  "helloTranscript \<noteq> []" "detectRiskIndicators helloTranscript = []"
  "extractKeyThemes helloTranscript = []" "detectLanguage helloTranscript = js ''english''"
  by (simp_all add: helloTranscript_def detectRiskIndicators_def riskKeywords_def toLowerCase_def
      extractKeyThemes_def commonThemes_def isWhitespace_def detectLanguage_def)

lemma noEmotion_attempt:
  "elevenLabsAttempt noEmotionWorld [] 0 =
     Inr \<lparr> pr_transcript = helloTranscript,
           pr_moodAnalysis =
             \<lparr> overall_mood = js ''neutral'', confidence_score = 0.8, emotions = [],
               sentiment_score = 0, key_themes = [], risk_indicators = [],
               recommendations = [js ''Explore activities that bring you joy'',
                                  js ''Consider setting new goals or challenges''] \<rparr>,
           pr_confidence = 0.95 \<rparr>"
  by (simp add: elevenLabsAttempt_def noEmotionWorld_def callElevenLabsTranscription_def
      callElevenLabsSentiment_def call_api_def hello_facts mapSentimentToScore_def
      generateRecommendations_def)

lemma noEmotion_chain:
  "providerChain noEmotionWorld [] 0 =
     (False,
      Some \<lparr> pr_transcript = helloTranscript,
           pr_moodAnalysis =
             \<lparr> overall_mood = js ''neutral'', confidence_score = 0.8, emotions = [],
               sentiment_score = 0, key_themes = [], risk_indicators = [],
               recommendations = [js ''Explore activities that bring you joy'',
                                  js ''Consider setting new goals or challenges''] \<rparr>,
           pr_confidence = 0.95 \<rparr>,
      [Attempt ElevenLabs 0])"
proof -
  have key: "ELEVENLABS_API_KEY noEmotionWorld \<noteq> []"
    by (simp add: noEmotionWorld_def)
  have "retryLoop ElevenLabs (elevenLabsAttempt noEmotionWorld []) 0 [] =
      (Some \<lparr> pr_transcript = helloTranscript,
           pr_moodAnalysis =
             \<lparr> overall_mood = js ''neutral'', confidence_score = 0.8, emotions = [],
               sentiment_score = 0, key_themes = [], risk_indicators = [],
               recommendations = [js ''Explore activities that bring you joy'',
                                  js ''Consider setting new goals or challenges''] \<rparr>,
           pr_confidence = 0.95 \<rparr>, [] @ [Attempt ElevenLabs 0])"
    by (rule retryLoop_success) (simp_all add: noEmotion_attempt)
  with key show ?thesis
    by (simp add: providerChain_def tryElevenLabsAnalysis_def)
qed

lemma flaky_el_attempt: "isl (elevenLabsAttempt flakyWorld [] n)"
  by (simp add: elevenLabsAttempt_def flakyWorld_def callElevenLabsTranscription_def call_api_def)

lemma flaky_el_loop:
  "retryLoop ElevenLabs (elevenLabsAttempt flakyWorld []) 0 [] =
     (None, [Attempt ElevenLabs 0, Delay 1000, Attempt ElevenLabs 1, Delay 2000, Attempt ElevenLabs 2])"
  by (simp add: retryLoop_failure_isl flaky_el_attempt retryLoop_done maxRetries_def retryDelayMs_def
      numeral_2_eq_2)

lemma google_facts:
  "googleText \<noteq> []" "detectRiskIndicators googleText = []"
  "extractKeyThemes googleText = []" "detectLanguage googleText = js ''english''"
  by (simp_all add: googleText_def detectRiskIndicators_def riskKeywords_def toLowerCase_def
      extractKeyThemes_def commonThemes_def isWhitespace_def detectLanguage_def)

lemma flaky_google_attempt0: "isl (googleAttempt flakyWorld [] 0)"
  by (simp add: googleAttempt_def flakyWorld_def callGoogleAITranscription_def call_api_def)

lemma flaky_google_attempt1:
  "googleAttempt flakyWorld [] (Suc 0) =
     Inr \<lparr> pr_transcript = googleText,
           pr_moodAnalysis = moodAnalysis flakyResult,
           pr_confidence = 0.92 \<rparr>"
  by (simp add: googleAttempt_def flakyWorld_def callGoogleAITranscription_def
      callGoogleAISentiment_def call_api_def googleTranscript_def List.map_filter_def
      googleConfidence_def google_facts mapGoogleSentimentToMood_def
      mapGoogleSentimentToEmotions_def generateRecommendations_def flakyResult_def)

lemma flaky_google_loop:
  "retryLoop Google (googleAttempt flakyWorld []) 0 tr =
     (Some \<lparr> pr_transcript = googleText, pr_moodAnalysis = moodAnalysis flakyResult,
             pr_confidence = 0.92 \<rparr>,
      tr @ [Attempt Google 0, Delay 1000, Attempt Google 1])"
proof -
  have second: "retryLoop Google (googleAttempt flakyWorld []) (Suc 0) tr' =
      (Some \<lparr> pr_transcript = googleText, pr_moodAnalysis = moodAnalysis flakyResult,
               pr_confidence = 0.92 \<rparr>,
       tr' @ [Attempt Google (Suc 0)])" for tr'
    by (rule retryLoop_success) (simp_all add: flaky_google_attempt1 maxRetries_def)
  show ?thesis
    by (simp add: retryLoop_failure_isl flaky_google_attempt0 second maxRetries_def retryDelayMs_def)
qed

lemma flaky_chain:
  "providerChain flakyWorld [] 0 =
     (True,
      Some \<lparr> pr_transcript = googleText, pr_moodAnalysis = moodAnalysis flakyResult,
             pr_confidence = 0.92 \<rparr>,
      [Attempt ElevenLabs 0, Delay 1000, Attempt ElevenLabs 1, Delay 2000, Attempt ElevenLabs 2,
       Attempt Google 0, Delay 1000, Attempt Google 1])"
proof -
  have keys: "ELEVENLABS_API_KEY flakyWorld \<noteq> []" "GOOGLE_AI_STUDIO_API_KEY flakyWorld \<noteq> []"
    by (simp_all add: flakyWorld_def)
  then show ?thesis
    by (simp add: providerChain_def tryElevenLabsAnalysis_def tryGoogleAIAnalysis_def
        flaky_el_loop flaky_google_loop)
qed

lemma flaky_run: "analyzeAudio flakyWorld [] None = Inr flakyResult"
proof -
  have clock: "Date_now flakyWorld (Suc 0) - Date_now flakyWorld 0 = 7000"
    by (simp add: flakyWorld_def)
  show ?thesis
    by (simp add: analyzeAudio_Some [OF flaky_chain] google_facts clock flakyResult_def)
qed

lemma dead_attempts:
  "isl (elevenLabsAttempt deadWorld [] n)" "isl (googleAttempt deadWorld [] n)"
  by (simp_all add: elevenLabsAttempt_def googleAttempt_def deadWorld_def
      callElevenLabsTranscription_def callGoogleAITranscription_def call_api_def)

section \<open>The mood analysis stage\<close>

text \<open>
  Claim C1. Whenever the provider chain returns a result (a provider succeeded) whose
  transcription confidence is below 0.6, \<open>analyzeAudio\<close> returns a result whose mood
  profile has \<open>overall_mood = neutral\<close>, \<open>confidence_score = 0.5\<close>,
  \<open>sentiment_score = 0\<close>, the single neutral emotion and exactly the two "try again"
  recommendations, with \<open>neutralFallbackApplied = true\<close>; the transcript of the result is
  still the text that the provider transcribed in the attempt that succeeded, and the
  confidence is the one that provider reported (for Google, the reported confidence of the
  first alternative, with 0.5 standing in for a missing or zero value, so a reported value
  below 0.6 is below 0.6 here as well: \<open>googleConfidence_reported_low\<close>).
\<close>

theorem analyzeAudio_low_confidence_neutral:
  assumes chain: "providerChain world buf 0 = (fb, Some pr, tr)"
    and low: "pr_confidence pr < 0.6"
  shows "\<exists>r. analyzeAudio world buf lang = Inr r \<and>
           overall_mood (moodAnalysis r) = js ''neutral'' \<and>
           confidence_score (moodAnalysis r) = 0.5 \<and>
           sentiment_score (moodAnalysis r) = 0 \<and>
           emotions (moodAnalysis r) = [\<lparr> name = js ''neutral'', intensity = 0.5, confidence = 0.5 \<rparr>] \<and>
           recommendations (moodAnalysis r) =
             [js ''Consider re-recording with clearer audio'', js ''Try speaking more slowly and clearly''] \<and>
           length (recommendations (moodAnalysis r)) = 2 \<and>
           neutralFallbackApplied (metadata r) \<and>
           transcript r = pr_transcript pr \<and>
           result_confidence r = pr_confidence pr \<and>
           (\<exists>n \<le> maxRetries.
              if fb then
                (\<exists>t. callGoogleAITranscription world buf n = Some t \<and>
                     transcript r = googleTranscript (results t) \<and>
                     result_confidence r = googleConfidence (results t))
              else
                (\<exists>t. callElevenLabsTranscription world buf n = Some t \<and>
                     transcript r = el_text t \<and> result_confidence r = el_confidence t))"
proof -
  let ?r = "\<lparr> transcript = pr_transcript pr,
             language = detectLanguage (pr_transcript pr),
             moodAnalysis = applyNeutralFallback (pr_moodAnalysis pr),
             result_confidence = pr_confidence pr,
             apiUsed = (if fb then js ''google'' else js ''elevenlabs''),
             processingTime = Date_now world 1 - Date_now world 0,
             metadata = \<lparr> retryCount = 0, meta_fallbackUsed = fb,
                          neutralFallbackApplied = True,
                          languageOverride =
                            (case lang of
                               None \<Rightarrow> False
                             | Some l \<Rightarrow> l \<noteq> [] \<and> l \<noteq> js ''unknown'' \<and>
                                   detectLanguage (pr_transcript pr) \<noteq> l) \<rparr> \<rparr>"
  from analyzeAudio_Some [OF chain, of lang] low
  have run: "analyzeAudio world buf lang = Inr ?r"
    by simp
  from providerChain_Some_attempt [OF chain]
  obtain n where n: "n \<le> maxRetries"
    "(\<not> fb \<and> elevenLabsAttempt world buf n = Inr pr) \<or> (fb \<and> googleAttempt world buf n = Inr pr)"
    by blast
  have source: "if fb then
                (\<exists>t. callGoogleAITranscription world buf n = Some t \<and>
                     transcript ?r = googleTranscript (results t) \<and>
                     result_confidence ?r = googleConfidence (results t))
              else
                (\<exists>t. callElevenLabsTranscription world buf n = Some t \<and>
                     transcript ?r = el_text t \<and> result_confidence ?r = el_confidence t)"
  proof (cases fb)
    case True
    with n(2) have "googleAttempt world buf n = Inr pr" by simp
    from googleAttempt_Inr [OF this] True show ?thesis by auto
  next
    case False
    with n(2) have "elevenLabsAttempt world buf n = Inr pr" by simp
    from elevenLabsAttempt_Inr [OF this] False show ?thesis by auto
  qed
  have fields: "overall_mood (moodAnalysis ?r) = js ''neutral'' \<and>
           confidence_score (moodAnalysis ?r) = 0.5 \<and>
           sentiment_score (moodAnalysis ?r) = 0 \<and>
           emotions (moodAnalysis ?r) = [\<lparr> name = js ''neutral'', intensity = 0.5, confidence = 0.5 \<rparr>] \<and>
           recommendations (moodAnalysis ?r) =
             [js ''Consider re-recording with clearer audio'', js ''Try speaking more slowly and clearly''] \<and>
           length (recommendations (moodAnalysis ?r)) = 2 \<and>
           neutralFallbackApplied (metadata ?r) \<and>
           transcript ?r = pr_transcript pr \<and>
           result_confidence ?r = pr_confidence pr"
    by (simp add: applyNeutralFallback_def)
  from run fields n(1) source show ?thesis
    by blast
qed


theorem analyzeAudio_low_confidence_neutral_witness:
  "providerChain lowConfidenceWorld [] 0 =
     (False,
      Some \<lparr> pr_transcript = hopelessTranscript,
           pr_moodAnalysis =
             \<lparr> overall_mood = js ''negative'', confidence_score = 0.9,
               emotions = [\<lparr> name = js ''sadness'', intensity = 0.9, confidence = 0.9 \<rparr>],
               sentiment_score = - 0.8, key_themes = [],
               risk_indicators = [js ''hopeless''],
               recommendations = [js ''Consider speaking with a mental health professional'',
                                  js ''Practice self-care and stress management techniques''] \<rparr>,
           pr_confidence = 0.3 \<rparr>,
      [Attempt ElevenLabs 0]) \<and>
   (\<exists>r. analyzeAudio lowConfidenceWorld [] (Some (js ''english'')) = Inr r \<and>
        overall_mood (moodAnalysis r) = js ''neutral'' \<and>
        confidence_score (moodAnalysis r) = 0.5 \<and>
        sentiment_score (moodAnalysis r) = 0 \<and>
        emotions (moodAnalysis r) = [\<lparr> name = js ''neutral'', intensity = 0.5, confidence = 0.5 \<rparr>] \<and>
        length (recommendations (moodAnalysis r)) = 2 \<and>
        neutralFallbackApplied (metadata r) \<and>
        transcript r = hopelessTranscript \<and>
        result_confidence r = 0.3)"
proof -
  let ?pr = "\<lparr> pr_transcript = hopelessTranscript,
           pr_moodAnalysis =
             \<lparr> overall_mood = js ''negative'', confidence_score = 0.9,
               emotions = [\<lparr> name = js ''sadness'', intensity = 0.9, confidence = 0.9 \<rparr>],
               sentiment_score = - 0.8, key_themes = [],
               risk_indicators = [js ''hopeless''],
               recommendations = [js ''Consider speaking with a mental health professional'',
                                  js ''Practice self-care and stress management techniques''] \<rparr>,
           pr_confidence = 0.3 \<rparr>"
  have low: "pr_confidence ?pr < 0.6" by simp
  from analyzeAudio_low_confidence_neutral [OF low_chain low, of "Some (js ''english'')"]
  obtain r where r: "analyzeAudio lowConfidenceWorld [] (Some (js ''english'')) = Inr r"
    "overall_mood (moodAnalysis r) = js ''neutral''"
    "confidence_score (moodAnalysis r) = 0.5"
    "sentiment_score (moodAnalysis r) = 0"
    "emotions (moodAnalysis r) = [\<lparr> name = js ''neutral'', intensity = 0.5, confidence = 0.5 \<rparr>]"
    "length (recommendations (moodAnalysis r)) = 2"
    "neutralFallbackApplied (metadata r)"
    "transcript r = pr_transcript ?pr"
    "result_confidence r = pr_confidence ?pr"
    by blast
  from r(8) have t: "transcript r = hopelessTranscript" by simp
  from r(9) have c: "result_confidence r = 0.3" by simp
  from low_chain r(1-7) t c show ?thesis by blast
qed

text \<open>
  Claim C2. \<open>analyzeAudio\<close> never throws: on every input it returns a result. When
  both adapters are exhausted (for each of them the key is missing or every one of its
  attempts fails) the result has \<open>apiUsed = fallback\<close>, an empty transcript, language
  \<open>unknown\<close>, confidence 0, and the neutral mood profile with \<open>confidence_score = 0\<close>,
  \<open>sentiment_score = 0\<close>, one neutral emotion, no themes, no risk indicators and the
  single recommendation to record again, with \<open>fallbackUsed\<close> and
  \<open>neutralFallbackApplied\<close> both true.
\<close>

theorem analyzeAudio_never_throws:
  "(\<exists>r. analyzeAudio world buf lang = Inr r) \<and>
   ((ELEVENLABS_API_KEY world = [] \<or> (\<forall>n \<le> maxRetries. isl (elevenLabsAttempt world buf n))) \<and>
    (GOOGLE_AI_STUDIO_API_KEY world = [] \<or> (\<forall>n \<le> maxRetries. isl (googleAttempt world buf n))) \<longrightarrow>
    analyzeAudio world buf lang =
      Inr \<lparr> transcript = [],
            language = js ''unknown'',
            moodAnalysis =
              \<lparr> overall_mood = js ''neutral'', confidence_score = 0,
                emotions = [\<lparr> name = js ''neutral'', intensity = 0.5, confidence = 0 \<rparr>],
                sentiment_score = 0, key_themes = [], risk_indicators = [],
                recommendations =
                  [js ''Unable to analyze audio. Please try re-recording with clearer audio.''] \<rparr>,
            result_confidence = 0,
            apiUsed = js ''fallback'',
            processingTime = Date_now world 1 - Date_now world 0,
            metadata = \<lparr> retryCount = 0, meta_fallbackUsed = True,
                         neutralFallbackApplied = True, languageOverride = False \<rparr> \<rparr>)"
proof -
  obtain fb res tr where chain: "providerChain world buf 0 = (fb, res, tr)"
    by (cases "providerChain world buf 0") auto
  have returns: "\<exists>r. analyzeAudio world buf lang = Inr r"
  proof (cases res)
    case None
    with chain analyzeAudio_None [of world buf fb tr lang] show ?thesis by blast
  next
    case (Some pr)
    with chain analyzeAudio_Some [of world buf fb pr tr lang] show ?thesis by blast
  qed
  have exhausted: "analyzeAudio world buf lang =
      Inr \<lparr> transcript = [],
            language = js ''unknown'',
            moodAnalysis =
              \<lparr> overall_mood = js ''neutral'', confidence_score = 0,
                emotions = [\<lparr> name = js ''neutral'', intensity = 0.5, confidence = 0 \<rparr>],
                sentiment_score = 0, key_themes = [], risk_indicators = [],
                recommendations =
                  [js ''Unable to analyze audio. Please try re-recording with clearer audio.''] \<rparr>,
            result_confidence = 0,
            apiUsed = js ''fallback'',
            processingTime = Date_now world 1 - Date_now world 0,
            metadata = \<lparr> retryCount = 0, meta_fallbackUsed = True,
                         neutralFallbackApplied = True, languageOverride = False \<rparr> \<rparr>"
    if "(ELEVENLABS_API_KEY world = [] \<or> (\<forall>n \<le> maxRetries. isl (elevenLabsAttempt world buf n))) \<and>
        (GOOGLE_AI_STUDIO_API_KEY world = [] \<or> (\<forall>n \<le> maxRetries. isl (googleAttempt world buf n)))"
  proof -
    from that providerChain_None_iff [of world buf 0] chain have "res = None" by simp
    with chain analyzeAudio_None [of world buf fb tr lang] show ?thesis
      by (simp add: createNeutralMoodAnalysis_def)
  qed
  from returns exhausted show ?thesis by blast
qed

theorem analyzeAudio_never_throws_witness:
  "isl (elevenLabsAttempt deadWorld [] 0) \<and> isl (elevenLabsAttempt deadWorld [] 1) \<and>
   isl (elevenLabsAttempt deadWorld [] 2) \<and>
   isl (googleAttempt deadWorld [] 0) \<and> isl (googleAttempt deadWorld [] 1) \<and>
   isl (googleAttempt deadWorld [] 2) \<and>
   analyzeAudio deadWorld [] (Some (js ''english'')) =
      Inr \<lparr> transcript = [],
            language = js ''unknown'',
            moodAnalysis =
              \<lparr> overall_mood = js ''neutral'', confidence_score = 0,
                emotions = [\<lparr> name = js ''neutral'', intensity = 0.5, confidence = 0 \<rparr>],
                sentiment_score = 0, key_themes = [], risk_indicators = [],
                recommendations =
                  [js ''Unable to analyze audio. Please try re-recording with clearer audio.''] \<rparr>,
            result_confidence = 0,
            apiUsed = js ''fallback'',
            processingTime = 14000,
            metadata = \<lparr> retryCount = 0, meta_fallbackUsed = True,
                         neutralFallbackApplied = True, languageOverride = False \<rparr> \<rparr>"
proof -
  have clock: "Date_now deadWorld 1 - Date_now deadWorld 0 = 14000"
    by (simp add: deadWorld_def)
  have fails: "(\<forall>n \<le> maxRetries. isl (elevenLabsAttempt deadWorld [] n)) \<and>
               (\<forall>n \<le> maxRetries. isl (googleAttempt deadWorld [] n))"
    by (simp add: dead_attempts)
  from analyzeAudio_never_throws [of deadWorld "[]" "Some (js ''english'')"] fails
  have "analyzeAudio deadWorld [] (Some (js ''english'')) =
      Inr \<lparr> transcript = [],
            language = js ''unknown'',
            moodAnalysis =
              \<lparr> overall_mood = js ''neutral'', confidence_score = 0,
                emotions = [\<lparr> name = js ''neutral'', intensity = 0.5, confidence = 0 \<rparr>],
                sentiment_score = 0, key_themes = [], risk_indicators = [],
                recommendations =
                  [js ''Unable to analyze audio. Please try re-recording with clearer audio.''] \<rparr>,
            result_confidence = 0,
            apiUsed = js ''fallback'',
            processingTime = Date_now deadWorld 1 - Date_now deadWorld 0,
            metadata = \<lparr> retryCount = 0, meta_fallbackUsed = True,
                         neutralFallbackApplied = True, languageOverride = False \<rparr> \<rparr>"
    by blast
  with clock have "analyzeAudio deadWorld [] (Some (js ''english'')) =
      Inr \<lparr> transcript = [],
            language = js ''unknown'',
            moodAnalysis =
              \<lparr> overall_mood = js ''neutral'', confidence_score = 0,
                emotions = [\<lparr> name = js ''neutral'', intensity = 0.5, confidence = 0 \<rparr>],
                sentiment_score = 0, key_themes = [], risk_indicators = [],
                recommendations =
                  [js ''Unable to analyze audio. Please try re-recording with clearer audio.''] \<rparr>,
            result_confidence = 0,
            apiUsed = js ''fallback'',
            processingTime = 14000,
            metadata = \<lparr> retryCount = 0, meta_fallbackUsed = True,
                         neutralFallbackApplied = True, languageOverride = False \<rparr> \<rparr>"
    by (simp only:)
  with dead_attempts show ?thesis by blast
qed

lemma noEmotion_run:
  "analyzeAudio noEmotionWorld [] None =
     Inr \<lparr> transcript = helloTranscript,
           language = js ''english'',
           moodAnalysis =
             \<lparr> overall_mood = js ''neutral'', confidence_score = 0.8, emotions = [],
               sentiment_score = 0, key_themes = [], risk_indicators = [],
               recommendations = [js ''Explore activities that bring you joy'',
                                  js ''Consider setting new goals or challenges''] \<rparr>,
           result_confidence = 0.95,
           apiUsed = js ''elevenlabs'',
           processingTime = 250,
           metadata = \<lparr> retryCount = 0, meta_fallbackUsed = False,
                        neutralFallbackApplied = False, languageOverride = False \<rparr> \<rparr>"
proof -
  have clock: "Date_now noEmotionWorld (Suc 0) - Date_now noEmotionWorld 0 = 250"
    by (simp add: noEmotionWorld_def)
  show ?thesis
    by (simp add: analyzeAudio_Some [OF noEmotion_chain] hello_facts clock)
qed

text \<open>
  Claim C3, as the claim states it, fails on the ElevenLabs success path: when the
  provider transcribes with confidence 0.95 and reports an empty emotions array, the mood
  profile of the result has no emotion at all.
\<close>

theorem analyzeAudio_emotions_empty_counterexample:
  "analyzeAudio noEmotionWorld [] None =
     Inr \<lparr> transcript = helloTranscript,
           language = js ''english'',
           moodAnalysis =
             \<lparr> overall_mood = js ''neutral'', confidence_score = 0.8, emotions = [],
               sentiment_score = 0, key_themes = [], risk_indicators = [],
               recommendations = [js ''Explore activities that bring you joy'',
                                  js ''Consider setting new goals or challenges''] \<rparr>,
           result_confidence = 0.95,
           apiUsed = js ''elevenlabs'',
           processingTime = 250,
           metadata = \<lparr> retryCount = 0, meta_fallbackUsed = False,
                        neutralFallbackApplied = False, languageOverride = False \<rparr> \<rparr>"
  by (rule noEmotion_run)

text \<open>
  Claim C3, amended. In every result of \<open>analyzeAudio\<close> the emotions list is not empty,
  except on the ElevenLabs success path with transcription confidence at least 0.6:
  there the list has one entry for each emotion that ElevenLabs reported, in the same
  order, with the reported names and intensities, so it is empty exactly when the
  provider's emotions array is empty.
\<close>

theorem analyzeAudio_emotions_nonempty_amended:
  assumes run: "analyzeAudio world buf lang = Inr r"
  shows "((apiUsed r = js ''elevenlabs'' \<and> 0.6 \<le> result_confidence r) \<or>
            emotions (moodAnalysis r) \<noteq> []) \<and>
         (apiUsed r = js ''elevenlabs'' \<and> 0.6 \<le> result_confidence r \<longrightarrow>
            (\<exists>n \<le> maxRetries. \<exists>t s.
               callElevenLabsTranscription world buf n = Some t \<and>
               callElevenLabsSentiment world (el_text t) n = Some s \<and>
               map name (emotions (moodAnalysis r)) = map reported_name (el_emotions s) \<and>
               map intensity (emotions (moodAnalysis r)) = map reported_intensity (el_emotions s) \<and>
               (emotions (moodAnalysis r) = [] \<longleftrightarrow> el_emotions s = [])))"
proof -
  obtain fb res tr where chain: "providerChain world buf 0 = (fb, res, tr)"
    by (cases "providerChain world buf 0") auto
  show ?thesis
  proof (cases res)
    case None
    with chain analyzeAudio_None [of world buf fb tr lang] run
    show ?thesis
      by (auto simp: createNeutralMoodAnalysis_def)
  next
    case (Some pr)
    with chain have chain': "providerChain world buf 0 = (fb, Some pr, tr)" by simp
    note r = analyzeAudio_Some [OF chain', of lang]
    from providerChain_Some_attempt [OF chain']
    obtain n where n: "n \<le> maxRetries"
      "(\<not> fb \<and> elevenLabsAttempt world buf n = Inr pr) \<or> (fb \<and> googleAttempt world buf n = Inr pr)"
      by blast
    show ?thesis
    proof (cases "pr_confidence pr < 0.6")
      case True
      with r run show ?thesis
        by (auto simp: applyNeutralFallback_def)
    next
      case high: False
      show ?thesis
      proof (cases fb)
        case True
        with n(2) have "googleAttempt world buf n = Inr pr" by simp
        from googleAttempt_Inr [OF this]
        have "emotions (pr_moodAnalysis pr) \<noteq> []"
          by (metis mapGoogleSentimentToEmotions_nonempty)
        with r run high True show ?thesis by auto
      next
        case False
        with n(2) have "elevenLabsAttempt world buf n = Inr pr" by simp
        from elevenLabsAttempt_Inr [OF this]
        obtain t s where ts: "callElevenLabsTranscription world buf n = Some t"
          "callElevenLabsSentiment world (el_text t) n = Some s"
          "emotions (pr_moodAnalysis pr) =
             map (\<lambda>emotion. \<lparr> name = reported_name emotion, intensity = reported_intensity emotion,
                                confidence = el_sentiment_confidence s \<rparr>) (el_emotions s)"
          by blast
        from r run high have m: "moodAnalysis r = pr_moodAnalysis pr"
          "apiUsed r = js ''elevenlabs''" "result_confidence r = pr_confidence pr"
          using False by auto
        from ts(3) m(1) have maps:
          "map name (emotions (moodAnalysis r)) = map reported_name (el_emotions s)"
          "map intensity (emotions (moodAnalysis r)) = map reported_intensity (el_emotions s)"
          "emotions (moodAnalysis r) = [] \<longleftrightarrow> el_emotions s = []"
          by (simp_all add: comp_def)
        from m(2,3) high have first: "apiUsed r = js ''elevenlabs'' \<and> 0.6 \<le> result_confidence r"
          by simp
        from first n(1) ts(1,2) maps show ?thesis by blast
      qed
    qed
  qed
qed

theorem analyzeAudio_emotions_nonempty_amended_witness:
  "analyzeAudio flakyWorld [] None = Inr flakyResult \<and>
   apiUsed flakyResult = js ''google'' \<and>
   emotions (moodAnalysis flakyResult) \<noteq> [] \<and>
   (\<exists>n \<le> maxRetries. \<exists>t s.
      callElevenLabsTranscription noEmotionWorld [] n = Some t \<and>
      callElevenLabsSentiment noEmotionWorld (el_text t) n = Some s \<and>
      el_emotions s = [])"
proof -
  have api: "apiUsed flakyResult = js ''google''"
    by (simp add: flakyResult_def)
  then have other: "apiUsed flakyResult \<noteq> js ''elevenlabs''"
    by simp
  from analyzeAudio_emotions_nonempty_amended [OF flaky_run] other
  have nonempty: "emotions (moodAnalysis flakyResult) \<noteq> []"
    by blast
  let ?r = "\<lparr> transcript = helloTranscript,
           language = js ''english'',
           moodAnalysis =
             \<lparr> overall_mood = js ''neutral'', confidence_score = 0.8, emotions = [],
               sentiment_score = 0, key_themes = [], risk_indicators = [],
               recommendations = [js ''Explore activities that bring you joy'',
                                  js ''Consider setting new goals or challenges''] \<rparr>,
           result_confidence = 0.95,
           apiUsed = js ''elevenlabs'',
           processingTime = 250,
           metadata = \<lparr> retryCount = 0, meta_fallbackUsed = False,
                        neutralFallbackApplied = False, languageOverride = False \<rparr> \<rparr>"
  have path: "apiUsed ?r = js ''elevenlabs'' \<and> 0.6 \<le> result_confidence ?r"
    by simp
  have none: "emotions (moodAnalysis ?r) = []"
    by simp
  from analyzeAudio_emotions_nonempty_amended [OF noEmotion_run] path none
  have "\<exists>n \<le> maxRetries. \<exists>t s.
      callElevenLabsTranscription noEmotionWorld [] n = Some t \<and>
      callElevenLabsSentiment noEmotionWorld (el_text t) n = Some s \<and>
      el_emotions s = []"
    by blast
  with flaky_run api nonempty show ?thesis by blast
qed

text \<open>
  Claim C10. The low-confidence neutral fallback replaces \<open>overall_mood\<close>,
  \<open>confidence_score\<close>, \<open>emotions\<close>, \<open>sentiment_score\<close> and \<open>recommendations\<close> and
  leaves \<open>key_themes\<close> and \<open>risk_indicators\<close> as they were. So when a provider
  succeeds with transcription confidence below 0.6, the themes and the risk indicators of
  the returned profile are those derived from the transcript, and if a risk indicator was
  detected, template selection on the returned profile gives the crisis template.
\<close>

theorem neutral_fallback_keeps_themes_and_risks:
  "applyNeutralFallback m =
     \<lparr> overall_mood = js ''neutral'', confidence_score = 0.5,
       emotions = [\<lparr> name = js ''neutral'', intensity = 0.5, confidence = 0.5 \<rparr>],
       sentiment_score = 0,
       key_themes = key_themes m, risk_indicators = risk_indicators m,
       recommendations = [js ''Consider re-recording with clearer audio'',
                          js ''Try speaking more slowly and clearly''] \<rparr> \<and>
   (providerChain world buf 0 = (fb, Some pr, tr) \<and> pr_confidence pr < 0.6 \<longrightarrow>
      (\<exists>r. analyzeAudio world buf lang = Inr r \<and>
           neutralFallbackApplied (metadata r) \<and>
           key_themes (moodAnalysis r) = key_themes (pr_moodAnalysis pr) \<and>
           risk_indicators (moodAnalysis r) = risk_indicators (pr_moodAnalysis pr) \<and>
           (risk_indicators (pr_moodAnalysis pr) \<noteq> [] \<longrightarrow>
              suggestTemplate (Some (moodAnalysis r)) =
                Inr \<lparr> templateId = js ''crisis-support-therapist'', suggestionConfidence = 0.95,
                      reasoning = js ''Risk indicators detected - using crisis support template'',
                      fallbackUsed = False \<rparr>)))"
proof -
  have frame: "applyNeutralFallback m =
     \<lparr> overall_mood = js ''neutral'', confidence_score = 0.5,
       emotions = [\<lparr> name = js ''neutral'', intensity = 0.5, confidence = 0.5 \<rparr>],
       sentiment_score = 0,
       key_themes = key_themes m, risk_indicators = risk_indicators m,
       recommendations = [js ''Consider re-recording with clearer audio'',
                          js ''Try speaking more slowly and clearly''] \<rparr>"
    by (simp add: applyNeutralFallback_def)
  have pipeline: "\<exists>r. analyzeAudio world buf lang = Inr r \<and>
           neutralFallbackApplied (metadata r) \<and>
           key_themes (moodAnalysis r) = key_themes (pr_moodAnalysis pr) \<and>
           risk_indicators (moodAnalysis r) = risk_indicators (pr_moodAnalysis pr) \<and>
           (risk_indicators (pr_moodAnalysis pr) \<noteq> [] \<longrightarrow>
              suggestTemplate (Some (moodAnalysis r)) =
                Inr \<lparr> templateId = js ''crisis-support-therapist'', suggestionConfidence = 0.95,
                      reasoning = js ''Risk indicators detected - using crisis support template'',
                      fallbackUsed = False \<rparr>)"
    if chain: "providerChain world buf 0 = (fb, Some pr, tr)" and low: "pr_confidence pr < 0.6"
  proof -
    have kept: "risk_indicators (applyNeutralFallback (pr_moodAnalysis pr)) =
        risk_indicators (pr_moodAnalysis pr)"
      "key_themes (applyNeutralFallback (pr_moodAnalysis pr)) = key_themes (pr_moodAnalysis pr)"
      by (simp_all add: applyNeutralFallback_def)
    have crisis: "suggestTemplate (Some (applyNeutralFallback (pr_moodAnalysis pr))) =
                Inr \<lparr> templateId = js ''crisis-support-therapist'', suggestionConfidence = 0.95,
                      reasoning = js ''Risk indicators detected - using crisis support template'',
                      fallbackUsed = False \<rparr>"
      if "risk_indicators (pr_moodAnalysis pr) \<noteq> []"
      using that kept(1)
      by (simp add: suggestTemplate_def suggestTemplate_body_def risk_rule_first)
    from analyzeAudio_Some [OF chain, of lang] low kept crisis show ?thesis
      by simp
  qed
  from frame pipeline show ?thesis by blast
qed

theorem neutral_fallback_keeps_themes_and_risks_witness:
  "\<exists>r. analyzeAudio lowConfidenceWorld [] None = Inr r \<and>
       neutralFallbackApplied (metadata r) \<and>
       key_themes (moodAnalysis r) = [] \<and>
       risk_indicators (moodAnalysis r) = [js ''hopeless''] \<and>
       suggestTemplate (Some (moodAnalysis r)) =
         Inr \<lparr> templateId = js ''crisis-support-therapist'', suggestionConfidence = 0.95,
               reasoning = js ''Risk indicators detected - using crisis support template'',
               fallbackUsed = False \<rparr>"
proof -
  let ?m = "\<lparr> overall_mood = js ''negative'', confidence_score = 0.9,
               emotions = [\<lparr> name = js ''sadness'', intensity = 0.9, confidence = 0.9 \<rparr>],
               sentiment_score = - 0.8, key_themes = [],
               risk_indicators = [js ''hopeless''],
               recommendations = [js ''Consider speaking with a mental health professional'',
                                  js ''Practice self-care and stress management techniques''] \<rparr>"
  let ?pr = "\<lparr> pr_transcript = hopelessTranscript, pr_moodAnalysis = ?m, pr_confidence = 0.3 \<rparr>"
  have low: "pr_confidence ?pr < 0.6" by simp
  have risk: "risk_indicators (pr_moodAnalysis ?pr) \<noteq> []" by simp
  from neutral_fallback_keeps_themes_and_risks
         [of ?m lowConfidenceWorld "[]" False ?pr "[Attempt ElevenLabs 0]" None]
       low_chain low
  obtain r where r: "analyzeAudio lowConfidenceWorld [] None = Inr r"
    "neutralFallbackApplied (metadata r)"
    "key_themes (moodAnalysis r) = key_themes (pr_moodAnalysis ?pr)"
    "risk_indicators (moodAnalysis r) = risk_indicators (pr_moodAnalysis ?pr)"
    "risk_indicators (pr_moodAnalysis ?pr) \<noteq> [] \<longrightarrow>
              suggestTemplate (Some (moodAnalysis r)) =
                Inr \<lparr> templateId = js ''crisis-support-therapist'', suggestionConfidence = 0.95,
                      reasoning = js ''Risk indicators detected - using crisis support template'',
                      fallbackUsed = False \<rparr>"
    by blast
  from r(3) have k: "key_themes (moodAnalysis r) = []" by simp
  from r(4) have i: "risk_indicators (moodAnalysis r) = [js ''hopeless'']" by simp
  from r(5) risk have s: "suggestTemplate (Some (moodAnalysis r)) =
                Inr \<lparr> templateId = js ''crisis-support-therapist'', suggestionConfidence = 0.95,
                      reasoning = js ''Risk indicators detected - using crisis support template'',
                      fallbackUsed = False \<rparr>" by blast
  from r(1,2) k i s show ?thesis by blast
qed

section \<open>The trace of the provider chain\<close>

lemma analyzeAudio_run_trace:
  "snd (analyzeAudio_run world buf lang) = snd (snd (providerChain world buf 0))"
  by (simp add: analyzeAudio_run_def Let_def split_beta)

lemma tryElevenLabsAnalysis_schedule:
  "if ELEVENLABS_API_KEY world = [] then tryElevenLabsAnalysis world buf rc tr = (None, tr)
   else \<exists>k \<le> maxRetries.
          snd (tryElevenLabsAnalysis world buf rc tr) = tr @ backoffSchedule ElevenLabs k \<and>
          (\<forall>i < k. isl (elevenLabsAttempt world buf i))"
  using retryLoop_from_zero [of ElevenLabs "elevenLabsAttempt world buf" tr]
  by (auto simp: tryElevenLabsAnalysis_def)

lemma tryGoogleAIAnalysis_schedule:
  "if GOOGLE_AI_STUDIO_API_KEY world = [] then tryGoogleAIAnalysis world buf rc tr = (None, tr)
   else \<exists>k \<le> maxRetries.
          snd (tryGoogleAIAnalysis world buf rc tr) = tr @ backoffSchedule Google k \<and>
          (\<forall>i < k. isl (googleAttempt world buf i))"
  using retryLoop_from_zero [of Google "googleAttempt world buf" tr]
  by (auto simp: tryGoogleAIAnalysis_def)

lemma attempts_append: "attempts p (xs @ ys) = attempts p xs + attempts p ys"
  by (simp add: attempts_def)

lemma attempts_Nil: "attempts p [] = 0"
  by (simp add: attempts_def)

lemma flaky_trace:
  "snd (analyzeAudio_run flakyWorld [] None) =
     [Attempt ElevenLabs 0, Delay 1000, Attempt ElevenLabs 1, Delay 2000, Attempt ElevenLabs 2,
      Attempt Google 0, Delay 1000, Attempt Google 1]"
  by (simp add: analyzeAudio_run_trace flaky_chain)

text \<open>
  Claim C7. In the trace of \<open>analyzeAudio\<close> the attempts on ElevenLabs come first and
  the attempts on Google after them. Each adapter with a configured key follows the
  backoff schedule: attempts 0 to \<open>k\<close> for some \<open>k \<le> maxRetries\<close> (every attempt
  before the last having failed), at most \<open>maxRetries + 1 = 3\<close> attempts, with a wait of
  \<open>retryDelayMs * 2^i\<close> milliseconds (base 1000) between attempt \<open>i\<close> and the next. An
  adapter whose key is not configured makes no attempt and waits for nothing, so that
  the next adapter starts at once. Google is attempted only when ElevenLabs returned no
  result.
\<close>

theorem provider_chain_retry_schedule:
  "\<exists>t1 t2.
     snd (analyzeAudio_run world buf lang) = t1 @ t2 \<and>
     t1 = snd (tryElevenLabsAnalysis world buf 0 []) \<and>
     (if ELEVENLABS_API_KEY world = [] then t1 = []
      else \<exists>k \<le> maxRetries. t1 = backoffSchedule ElevenLabs k \<and>
             (\<forall>i < k. isl (elevenLabsAttempt world buf i))) \<and>
     (if fst (tryElevenLabsAnalysis world buf 0 []) \<noteq> None \<or> GOOGLE_AI_STUDIO_API_KEY world = []
      then t2 = []
      else \<exists>k \<le> maxRetries. t2 = backoffSchedule Google k \<and>
             (\<forall>i < k. isl (googleAttempt world buf i))) \<and>
     attempts ElevenLabs (t1 @ t2) \<le> maxRetries + 1 \<and>
     attempts Google (t1 @ t2) \<le> maxRetries + 1 \<and>
     maxRetries + 1 = 3 \<and> retryDelayMs = 1000"
proof -
  obtain first t1 where el: "tryElevenLabsAnalysis world buf 0 [] = (first, t1)"
    by (cases "tryElevenLabsAnalysis world buf 0 []") auto
  have s1: "if ELEVENLABS_API_KEY world = [] then t1 = []
      else \<exists>k \<le> maxRetries. t1 = backoffSchedule ElevenLabs k \<and>
             (\<forall>i < k. isl (elevenLabsAttempt world buf i))"
    using tryElevenLabsAnalysis_schedule [of world buf 0 "[]"] el
    by (auto split: if_splits)
  then have a1: "attempts ElevenLabs t1 \<le> maxRetries + 1" "attempts Google t1 = 0"
    by (auto simp: attempts_backoffSchedule attempts_Nil split: if_splits)
  define t2 where "t2 = (if first \<noteq> None then []
      else drop (length t1) (snd (tryGoogleAIAnalysis world buf 0 t1)))"
  have g: "first = None \<Longrightarrow> snd (tryGoogleAIAnalysis world buf 0 t1) = t1 @ t2"
    using tryGoogleAIAnalysis_schedule [of world buf 0 t1]
    by (auto simp: t2_def split: if_splits)
  have s2: "if first \<noteq> None \<or> GOOGLE_AI_STUDIO_API_KEY world = [] then t2 = []
      else \<exists>k \<le> maxRetries. t2 = backoffSchedule Google k \<and>
             (\<forall>i < k. isl (googleAttempt world buf i))"
    using tryGoogleAIAnalysis_schedule [of world buf 0 t1]
    by (auto simp: t2_def split: if_splits)
  then have a2: "attempts Google t2 \<le> maxRetries + 1" "attempts ElevenLabs t2 = 0"
    by (auto simp: attempts_backoffSchedule attempts_Nil split: if_splits)
  have tr: "snd (analyzeAudio_run world buf lang) = t1 @ t2"
  proof (cases first)
    case None
    with el g show ?thesis
      by (simp add: analyzeAudio_run_trace providerChain_def)
  next
    case (Some r)
    with el show ?thesis
      by (simp add: analyzeAudio_run_trace providerChain_def t2_def)
  qed
  have constants: "maxRetries + 1 = 3 \<and> retryDelayMs = 1000"
    by (simp add: maxRetries_def retryDelayMs_def)
  from a1 a2 have counts: "attempts ElevenLabs (t1 @ t2) \<le> maxRetries + 1"
    "attempts Google (t1 @ t2) \<le> maxRetries + 1"
    by (simp_all add: attempts_append)
  from el have fst_snd: "fst (tryElevenLabsAnalysis world buf 0 []) = first"
    "snd (tryElevenLabsAnalysis world buf 0 []) = t1" by simp_all
  show ?thesis
    apply (rule exI [of _ t1])
    apply (rule exI [of _ t2])
    using tr s1 s2 counts constants
    by (simp only: fst_snd simp_thms)
qed

theorem provider_chain_retry_schedule_witness:
  "ELEVENLABS_API_KEY flakyWorld \<noteq> [] \<and> GOOGLE_AI_STUDIO_API_KEY flakyWorld \<noteq> [] \<and>
   fst (tryElevenLabsAnalysis flakyWorld [] 0 []) = None \<and>
   snd (analyzeAudio_run flakyWorld [] None) =
     [Attempt ElevenLabs 0, Delay 1000, Attempt ElevenLabs 1, Delay 2000, Attempt ElevenLabs 2,
      Attempt Google 0, Delay 1000, Attempt Google 1] \<and>
   (\<exists>k1 \<le> maxRetries. \<exists>k2 \<le> maxRetries.
      snd (analyzeAudio_run flakyWorld [] None) =
        backoffSchedule ElevenLabs k1 @ backoffSchedule Google k2)"
proof -
  have keys: "ELEVENLABS_API_KEY flakyWorld \<noteq> []" "GOOGLE_AI_STUDIO_API_KEY flakyWorld \<noteq> []"
    by (simp_all add: flakyWorld_def)
  then have none: "fst (tryElevenLabsAnalysis flakyWorld [] 0 []) = None"
    by (simp add: tryElevenLabsAnalysis_def flaky_el_loop)
  from provider_chain_retry_schedule [of flakyWorld "[]" None] keys none
  have "\<exists>k1 \<le> maxRetries. \<exists>k2 \<le> maxRetries.
      snd (analyzeAudio_run flakyWorld [] None) =
        backoffSchedule ElevenLabs k1 @ backoffSchedule Google k2"
    by (elim exE conjE) (simp, blast)
  with keys none flaky_trace show ?thesis by blast
qed

section \<open>The storage upload and the provider loop of the video stage\<close>

lemma uploadVideoToStorage_success:
  "uploadAttempt world url userId dialogueId retry = Inr uploadedUrl \<Longrightarrow>
     uploadVideoToStorage world url userId dialogueId retry tr =
       (Inr uploadedUrl, tr @ [UploadAttempt retry])"
  by (subst uploadVideoToStorage.simps) simp

lemma uploadVideoToStorage_retry:
  "isl (uploadAttempt world url userId dialogueId retry) \<Longrightarrow> retry < STORAGE_RETRY_LIMIT \<Longrightarrow>
     uploadVideoToStorage world url userId dialogueId retry tr =
       uploadVideoToStorage world url userId dialogueId (Suc retry) (tr @ [UploadAttempt retry])"
  by (subst uploadVideoToStorage.simps) (auto split: sum.splits)

lemma uploadVideoToStorage_give_up:
  "isl (uploadAttempt world url userId dialogueId retry) \<Longrightarrow> \<not> retry < STORAGE_RETRY_LIMIT \<Longrightarrow>
     uploadVideoToStorage world url userId dialogueId retry tr =
       (uploadAttempt world url userId dialogueId retry, tr @ [UploadAttempt retry])"
  by (subst uploadVideoToStorage.simps) (auto split: sum.splits)

lemma uploadVideoToStorage_attempts:
  "a \<le> STORAGE_RETRY_LIMIT \<Longrightarrow>
     \<exists>k. a \<le> k \<and> k \<le> STORAGE_RETRY_LIMIT \<and>
         uploadVideoToStorage world url userId dialogueId a tr =
           (uploadAttempt world url userId dialogueId k, tr @ map UploadAttempt [a..<Suc k]) \<and>
         (\<forall>i. a \<le> i \<and> i < k \<longrightarrow> isl (uploadAttempt world url userId dialogueId i)) \<and>
         (isl (uploadAttempt world url userId dialogueId k) \<longrightarrow> k = STORAGE_RETRY_LIMIT)"
proof (induction world url userId dialogueId a tr rule: uploadVideoToStorage.induct)
  case (1 world url userId dialogueId a tr)
  show ?case
  proof (cases "uploadAttempt world url userId dialogueId a")
    case (Inr uploadedUrl)
    then show ?thesis
      using "1.prems" by (intro exI [of _ a]) (auto simp: uploadVideoToStorage_success)
  next
    case (Inl e)
    then have failed: "isl (uploadAttempt world url userId dialogueId a)" by simp
    show ?thesis
    proof (cases "a < STORAGE_RETRY_LIMIT")
      case False
      with failed show ?thesis
        using "1.prems" by (intro exI [of _ a]) (auto simp: uploadVideoToStorage_give_up)
    next
      case True
      then have le: "Suc a \<le> STORAGE_RETRY_LIMIT" by simp
      from "1.IH" [OF Inl True le]
      obtain k where k: "Suc a \<le> k" "k \<le> STORAGE_RETRY_LIMIT"
        "uploadVideoToStorage world url userId dialogueId (Suc a) (tr @ [UploadAttempt a]) =
           (uploadAttempt world url userId dialogueId k,
            (tr @ [UploadAttempt a]) @ map UploadAttempt [Suc a..<Suc k])"
        "\<forall>i. Suc a \<le> i \<and> i < k \<longrightarrow> isl (uploadAttempt world url userId dialogueId i)"
        "isl (uploadAttempt world url userId dialogueId k) \<longrightarrow> k = STORAGE_RETRY_LIMIT"
        by blast
      have up: "[a..<Suc k] = a # [Suc a..<Suc k]"
        using k(1) by (simp add: upt_conv_Cons)
      have all: "\<forall>i. a \<le> i \<and> i < k \<longrightarrow> isl (uploadAttempt world url userId dialogueId i)"
      proof (intro allI impI)
        fix i assume "a \<le> i \<and> i < k"
        then consider "i = a" | "Suc a \<le> i \<and> i < k" by linarith
        then show "isl (uploadAttempt world url userId dialogueId i)"
          using failed k(4) by cases auto
      qed
      have "uploadVideoToStorage world url userId dialogueId a tr =
           (uploadAttempt world url userId dialogueId k, tr @ map UploadAttempt [a..<Suc k])"
        using k(3) by (simp add: uploadVideoToStorage_retry [OF failed True] up del: upt_Suc)
      with k(1,2,5) all show ?thesis
        by (intro exI [of _ k]) auto
    qed
  qed
qed

lemma uploadVideoToStorage_all_fail:
  assumes "\<forall>k \<le> STORAGE_RETRY_LIMIT. isl (uploadAttempt world url userId dialogueId k)"
  shows "uploadVideoToStorage world url userId dialogueId 0 tr =
           (uploadAttempt world url userId dialogueId 3,
            tr @ [UploadAttempt 0, UploadAttempt 1, UploadAttempt 2, UploadAttempt 3])"
proof -
  from uploadVideoToStorage_attempts [of 0 world url userId dialogueId tr]
  obtain k where k: "k \<le> STORAGE_RETRY_LIMIT"
    "uploadVideoToStorage world url userId dialogueId 0 tr =
       (uploadAttempt world url userId dialogueId k, tr @ map UploadAttempt [0..<Suc k])"
    "isl (uploadAttempt world url userId dialogueId k) \<longrightarrow> k = STORAGE_RETRY_LIMIT"
    by auto
  from assms k(1,3) have "k = 3" by (simp add: STORAGE_RETRY_LIMIT_def)
  with k(2) show ?thesis
    by (simp add: upt_rec numeral_3_eq_3)
qed








lemma providerLoop_break_DID:
  "attempt < PROVIDER_RETRY_LIMIT \<Longrightarrow> tryDID world payload attempt l = Inr l' \<Longrightarrow>
     providerLoop world payload attempt l tr = (l', tr @ [CallDID attempt])"
  by (subst providerLoop.simps) simp






lemma generateAvatarVideo_run_no_url:
  "providerLoop world payload 0 initialLocals [] = (l, tr) \<Longrightarrow> \<not> truthy (cur_videoUrl l) \<Longrightarrow>
     generateAvatarVideo_run world payload userId dialogueId tid vid =
       (Inr \<lparr> videoUrl = [], provider = cur_provider l, status = Failed,
              errorMessage =
                (if truthy (cur_errorMessage l) then cur_errorMessage l
                 else Some (js ''Both video providers failed to generate video.'')),
              duration = None, providerResponse = None \<rparr>,
        tr)"
  by (simp add: generateAvatarVideo_run_def)

lemma generateAvatarVideo_run_upload:
  "providerLoop world payload 0 initialLocals [] = (l, tr) \<Longrightarrow> cur_videoUrl l = Some url \<Longrightarrow>
   url \<noteq> [] \<Longrightarrow>
     generateAvatarVideo_run world payload userId dialogueId tid vid =
       (case uploadVideoToStorage world url userId dialogueId 0 tr of
          (Inl storageError, tr') \<Rightarrow>
            (Inr \<lparr> videoUrl = [], provider = cur_provider l, status = Failed,
                   errorMessage = Some (message storageError),
                   duration = None, providerResponse = None \<rparr>,
             tr')
        | (Inr storageUrl, tr') \<Rightarrow>
            (Inr \<lparr> videoUrl = storageUrl, provider = cur_provider l, status = Completed,
                   errorMessage = cur_errorMessage l,
                   duration = None, providerResponse = cur_providerResponse l \<rparr>,
             tr'))"
  by (simp add: generateAvatarVideo_run_def truthy_def)


lemma truthy_cases: "truthy v \<longleftrightarrow> (\<exists>url. v = Some url \<and> url \<noteq> [])"
  by (cases v) (auto simp: truthy_def)

lemma uploadVideoToStorage_from_zero:
  "\<exists>k \<le> STORAGE_RETRY_LIMIT.
      uploadVideoToStorage world url userId dialogueId 0 tr =
        (uploadAttempt world url userId dialogueId k, tr @ map UploadAttempt [0..<Suc k]) \<and>
      (\<forall>i < k. isl (uploadAttempt world url userId dialogueId i)) \<and>
      (isl (uploadAttempt world url userId dialogueId k) \<longrightarrow> k = STORAGE_RETRY_LIMIT)"
  using uploadVideoToStorage_attempts [of 0 world url userId dialogueId tr] by auto

lemma generateAvatarVideo_returns:
  "\<exists>r. generateAvatarVideo world payload userId dialogueId tid vid = Inr r"
proof -
  obtain l tr where loop: "providerLoop world payload 0 initialLocals [] = (l, tr)"
    by (cases "providerLoop world payload 0 initialLocals []") auto
  show ?thesis
  proof (cases "truthy (cur_videoUrl l)")
    case False
    from generateAvatarVideo_run_no_url [OF loop False] show ?thesis
      by (simp add: generateAvatarVideo_def)
  next
    case True
    then obtain url where url: "cur_videoUrl l = Some url" "url \<noteq> []"
      by (auto simp: truthy_cases)
    from generateAvatarVideo_run_upload [OF loop url] show ?thesis
      by (auto simp: generateAvatarVideo_def split: prod.splits sum.splits)
  qed
qed

lemma downloadFails_loop:
  "providerLoop downloadFailsWorld samplePayload 0 initialLocals [] =
     (\<lparr> cur_provider = D_ID,
        cur_providerResponse = Some \<lparr> video_url = Some didUrl, download_url = None \<rparr>,
        cur_videoUrl = Some didUrl, cur_errorMessage = None, cur_status = Processing \<rparr>,
      [CallDID 0])"
proof -
  have url: "didUrl \<noteq> []" by (simp add: didUrl_def)
  have "tryDID downloadFailsWorld samplePayload 0 initialLocals =
      Inr \<lparr> cur_provider = D_ID,
        cur_providerResponse = Some \<lparr> video_url = Some didUrl, download_url = None \<rparr>,
        cur_videoUrl = Some didUrl, cur_errorMessage = None, cur_status = Processing \<rparr>"
    by (simp add: tryDID_def callDIDApi_def downloadFailsWorld_def truthy_def url initialLocals_def)
  then have "providerLoop downloadFailsWorld samplePayload 0 initialLocals [] =
      (\<lparr> cur_provider = D_ID,
        cur_providerResponse = Some \<lparr> video_url = Some didUrl, download_url = None \<rparr>,
        cur_videoUrl = Some didUrl, cur_errorMessage = None, cur_status = Processing \<rparr>,
       [] @ [CallDID 0])"
    by (intro providerLoop_break_DID) (simp_all add: PROVIDER_RETRY_LIMIT_def)
  then show ?thesis by simp
qed

lemma downloadFails_attempt:
  "uploadAttempt downloadFailsWorld didUrl userId dialogueId k = Inl (Error (js ''Download failed''))"
  by (simp add: uploadAttempt_def downloadFailsWorld_def)



section \<open>The video generation stage\<close>



text \<open>
  Claim C6. \<open>uploadVideoToStorage\<close> makes the attempts 0 to \<open>k\<close> for some
  \<open>k \<le> STORAGE_RETRY_LIMIT = 3\<close>, every attempt before the last having failed, and it
  fails only after attempt 3: at most four attempts, exactly four when all of them fail,
  the error thrown being that of the last. \<open>generateAvatarVideo\<close> never throws; when a
  provider gave a usable URL and all four upload attempts fail, it returns status
  \<open>failed\<close>, an empty \<open>videoUrl\<close> and the message of that last error.
\<close>

theorem uploadVideoToStorage_retry_limit:
  "(\<exists>k \<le> STORAGE_RETRY_LIMIT.
      uploadVideoToStorage world url userId dialogueId 0 tr =
        (uploadAttempt world url userId dialogueId k, tr @ map UploadAttempt [0..<Suc k]) \<and>
      (\<forall>i < k. isl (uploadAttempt world url userId dialogueId i)) \<and>
      (isl (uploadAttempt world url userId dialogueId k) \<longrightarrow> k = STORAGE_RETRY_LIMIT)) \<and>
   STORAGE_RETRY_LIMIT = 3 \<and>
   ((\<forall>k \<le> STORAGE_RETRY_LIMIT. isl (uploadAttempt world url userId dialogueId k)) \<longrightarrow>
      uploadVideoToStorage world url userId dialogueId 0 tr =
        (uploadAttempt world url userId dialogueId 3,
         tr @ [UploadAttempt 0, UploadAttempt 1, UploadAttempt 2, UploadAttempt 3])) \<and>
   (\<exists>r. generateAvatarVideo world payload userId dialogueId tid vid = Inr r) \<and>
   (providerLoop world payload 0 initialLocals [] = (l, tr) \<and> cur_videoUrl l = Some url \<and> url \<noteq> [] \<and>
    (\<forall>k \<le> STORAGE_RETRY_LIMIT. isl (uploadAttempt world url userId dialogueId k)) \<longrightarrow>
      (\<exists>e. uploadAttempt world url userId dialogueId 3 = Inl e \<and>
           generateAvatarVideo_run world payload userId dialogueId tid vid =
             (Inr \<lparr> videoUrl = [], provider = cur_provider l, status = Failed,
                    errorMessage = Some (message e), duration = None, providerResponse = None \<rparr>,
              tr @ [UploadAttempt 0, UploadAttempt 1, UploadAttempt 2, UploadAttempt 3])))"
proof -
  have limit: "STORAGE_RETRY_LIMIT = 3" by (simp add: STORAGE_RETRY_LIMIT_def)
  have failed: "\<exists>e. uploadAttempt world url userId dialogueId 3 = Inl e \<and>
           generateAvatarVideo_run world payload userId dialogueId tid vid =
             (Inr \<lparr> videoUrl = [], provider = cur_provider l, status = Failed,
                    errorMessage = Some (message e), duration = None, providerResponse = None \<rparr>,
              tr @ [UploadAttempt 0, UploadAttempt 1, UploadAttempt 2, UploadAttempt 3])"
    if loop: "providerLoop world payload 0 initialLocals [] = (l, tr)"
      and url: "cur_videoUrl l = Some url" "url \<noteq> []"
      and all: "\<forall>k \<le> STORAGE_RETRY_LIMIT. isl (uploadAttempt world url userId dialogueId k)"
  proof -
    from all limit have "isl (uploadAttempt world url userId dialogueId 3)" by simp
    then obtain e where e: "uploadAttempt world url userId dialogueId 3 = Inl e"
      by (cases "uploadAttempt world url userId dialogueId 3") auto
    from generateAvatarVideo_run_upload [OF loop url] uploadVideoToStorage_all_fail [OF all] e
    show ?thesis by simp
  qed
  from uploadVideoToStorage_from_zero [of world url userId dialogueId tr] limit
    uploadVideoToStorage_all_fail [of world url userId dialogueId tr]
    generateAvatarVideo_returns [of world payload userId dialogueId tid vid] failed
  show ?thesis by blast
qed

theorem uploadVideoToStorage_retry_limit_witness:
  "uploadAttempt downloadFailsWorld didUrl (js ''user123'') (js ''dialogue123'') 0 =
     Inl (Error (js ''Download failed'')) \<and>
   uploadAttempt downloadFailsWorld didUrl (js ''user123'') (js ''dialogue123'') 1 =
     Inl (Error (js ''Download failed'')) \<and>
   uploadAttempt downloadFailsWorld didUrl (js ''user123'') (js ''dialogue123'') 2 =
     Inl (Error (js ''Download failed'')) \<and>
   uploadAttempt downloadFailsWorld didUrl (js ''user123'') (js ''dialogue123'') 3 =
     Inl (Error (js ''Download failed'')) \<and>
   generateAvatarVideo_run downloadFailsWorld samplePayload (js ''user123'') (js ''dialogue123'')
       (js ''template123'') (js ''video123'') =
     (Inr \<lparr> videoUrl = [], provider = D_ID, status = Failed,
            errorMessage = Some (js ''Download failed''), duration = None,
            providerResponse = None \<rparr>,
      [CallDID 0, UploadAttempt 0, UploadAttempt 1, UploadAttempt 2, UploadAttempt 3])"
proof -
  let ?l = "\<lparr> cur_provider = D_ID,
        cur_providerResponse = Some \<lparr> video_url = Some didUrl, download_url = None \<rparr>,
        cur_videoUrl = Some didUrl, cur_errorMessage = None, cur_status = Processing \<rparr>"
  have url: "cur_videoUrl ?l = Some didUrl \<and> didUrl \<noteq> []" by (simp add: didUrl_def)
  have all: "\<forall>k \<le> STORAGE_RETRY_LIMIT.
      isl (uploadAttempt downloadFailsWorld didUrl (js ''user123'') (js ''dialogue123'') k)"
    by (simp add: downloadFails_attempt)
  from uploadVideoToStorage_retry_limit
         [of downloadFailsWorld didUrl "js ''user123''" "js ''dialogue123''" "[CallDID 0]"
             samplePayload "js ''template123''" "js ''video123''" ?l]
       downloadFails_loop url all
  obtain e where e:
    "uploadAttempt downloadFailsWorld didUrl (js ''user123'') (js ''dialogue123'') 3 = Inl e"
    "generateAvatarVideo_run downloadFailsWorld samplePayload (js ''user123'') (js ''dialogue123'')
       (js ''template123'') (js ''video123'') =
     (Inr \<lparr> videoUrl = [], provider = cur_provider ?l, status = Failed,
            errorMessage = Some (message e), duration = None, providerResponse = None \<rparr>,
      [CallDID 0] @ [UploadAttempt 0, UploadAttempt 1, UploadAttempt 2, UploadAttempt 3])"
    by blast
  from e(1) have "e = Error (js ''Download failed'')"
    by (simp only: downloadFails_attempt sum.inject)
  with e(2) have "generateAvatarVideo_run downloadFailsWorld samplePayload (js ''user123'')
       (js ''dialogue123'') (js ''template123'') (js ''video123'') =
     (Inr \<lparr> videoUrl = [], provider = D_ID, status = Failed,
            errorMessage = Some (js ''Download failed''), duration = None,
            providerResponse = None \<rparr>,
      [CallDID 0, UploadAttempt 0, UploadAttempt 1, UploadAttempt 2, UploadAttempt 3])"
    by (simp add: message_def)
  with downloadFails_attempt show ?thesis by blast
qed

end
